theory Spec2Isabelle
  imports Complex_Main
begin

section \<open>Errors and arrays\<close>

text \<open>
  The program is numerical Python over numpy arrays.  Floating-point numbers are modelled
  as exact reals, except in the section on binary64 arithmetic, where each operation is
  followed by rounding.  Every exception the code can raise is a value of \<open>error\<close>; an
  operation whose numpy result is \<open>nan\<close> or \<open>\<plusminus>inf\<close> (logarithm of a non-positive
  number, square root of a negative number, division by zero, mean of an empty array)
  has no real value and returns \<open>NonFinite\<close>.
\<close>

datatype error = IndexError | ValueError | NonFinite

definition and_then :: "error + 'a \<Rightarrow> ('a \<Rightarrow> error + 'b) \<Rightarrow> error + 'b" where
  "and_then r f = (case r of Inl e \<Rightarrow> Inl e | Inr x \<Rightarrow> f x)"

type_synonym vector = "real list"

text \<open>A two-dimensional array of shape \<open>(length rows, ncols)\<close>, stored by rows.\<close>

datatype matrix = Mat (ncols: nat) (rows: "vector list")

definition nrows :: "matrix \<Rightarrow> nat" where
  "nrows M = length (rows M)"

definition wf_matrix :: "matrix \<Rightarrow> bool" where
  "wf_matrix M = list_all (\<lambda>r. length r = ncols M) (rows M)"

definition has_shape :: "matrix \<Rightarrow> nat \<Rightarrow> nat \<Rightarrow> bool" where
  "has_shape M N n = (nrows M = N \<and> ncols M = n \<and> wf_matrix M)"

definition entry :: "matrix \<Rightarrow> nat \<Rightarrow> nat \<Rightarrow> real" where
  "entry M i j = rows M ! i ! j"

subsection \<open>Broadcasting elementwise operations\<close>

text \<open>numpy's rule for one axis: equal extents, or one of them is 1 and is stretched.\<close>

definition broadcast_dim :: "nat \<Rightarrow> nat \<Rightarrow> error + nat" where
  "broadcast_dim a b =
     (if a = b then Inr a else if a = 1 then Inr b else if b = 1 then Inr a
      else Inl ValueError)"

definition stretch :: "nat \<Rightarrow> 'a list \<Rightarrow> 'a list" where
  "stretch c xs = (if length xs = c then xs else replicate c (hd xs))"

definition vec_op :: "(real \<Rightarrow> real \<Rightarrow> real) \<Rightarrow> vector \<Rightarrow> vector \<Rightarrow> error + vector" where
  "vec_op f u v =
     and_then (broadcast_dim (length u) (length v))
       (\<lambda>c. Inr (map2 f (stretch c u) (stretch c v)))"

definition mat_op :: "(real \<Rightarrow> real \<Rightarrow> real) \<Rightarrow> matrix \<Rightarrow> matrix \<Rightarrow> error + matrix" where
  "mat_op f A B =
     and_then (broadcast_dim (ncols A) (ncols B)) (\<lambda>c.
     and_then (broadcast_dim (nrows A) (nrows B)) (\<lambda>r.
       Inr (Mat c (map2 (\<lambda>a b. map2 f (stretch c a) (stretch c b))
                        (stretch r (rows A)) (stretch r (rows B))))))"

text \<open>A one-dimensional operand of a two-dimensional one is a single row.\<close>

definition mat_vec_op :: "(real \<Rightarrow> real \<Rightarrow> real) \<Rightarrow> matrix \<Rightarrow> vector \<Rightarrow> error + matrix" where
  "mat_vec_op f A v = mat_op f A (Mat (length v) [v])"

definition mat_map :: "(real \<Rightarrow> real) \<Rightarrow> matrix \<Rightarrow> matrix" where
  "mat_map f A = Mat (ncols A) (map (map f) (rows A))"

subsection \<open>Products, slices and reductions\<close>

definition vec_mat :: "vector \<Rightarrow> matrix \<Rightarrow> vector" where
  "vec_mat x W = map (\<lambda>j. sum_list (map2 (\<lambda>xi wi. xi * wi ! j) x (rows W))) [0..<ncols W]"

text \<open>\<open>np.dot\<close> of a matrix, or of a vector, with a matrix.\<close>

definition np_dot :: "matrix \<Rightarrow> matrix \<Rightarrow> error + matrix" where
  "np_dot X W =
     (if ncols X = nrows W then Inr (Mat (ncols W) (map (\<lambda>x. vec_mat x W) (rows X)))
      else Inl ValueError)"

definition np_dot_1d :: "vector \<Rightarrow> matrix \<Rightarrow> error + vector" where
  "np_dot_1d x W = (if length x = nrows W then Inr (vec_mat x W) else Inl ValueError)"

text \<open>The slices \<open>A[:, :D]\<close> and \<open>A[:, D:]\<close>.\<close>

definition cols_to :: "nat \<Rightarrow> matrix \<Rightarrow> matrix" where
  "cols_to D A = Mat (min D (ncols A)) (map (take D) (rows A))"

definition cols_from :: "nat \<Rightarrow> matrix \<Rightarrow> matrix" where
  "cols_from D A = Mat (ncols A - D) (map (drop D) (rows A))"

text \<open>\<open>np.sum(A, axis=1)\<close>, \<open>np.log\<close> and \<open>np.mean\<close>.\<close>

definition sum_axis1 :: "matrix \<Rightarrow> vector" where
  "sum_axis1 A = map sum_list (rows A)"

definition np_log :: "matrix \<Rightarrow> error + matrix" where
  "np_log A =
     (if list_all (list_all (\<lambda>x. 0 < x)) (rows A) then Inr (mat_map ln A)
      else Inl NonFinite)"

definition np_mean :: "vector \<Rightarrow> error + real" where
  "np_mean v = (if v = [] then Inl NonFinite else Inr (sum_list v / real (length v)))"

section \<open>Activation functions and the network evaluator\<close>

definition sigmoid :: "real \<Rightarrow> real" where
  "sigmoid x = 1 / (1 + exp (- x))"

definition relu :: "real \<Rightarrow> real" where
  "relu x = max 0 x"

text \<open>A layer is a pair of a weight matrix and a bias vector.\<close>

type_synonym layer = "matrix \<times> vector"

text \<open>The loop over \<open>params[:-1]\<close>: an affine map, then the rectifier.\<close>

fun hidden_layers :: "layer list \<Rightarrow> matrix \<Rightarrow> error + matrix" where
  "hidden_layers [] inputs = Inr inputs"
| "hidden_layers ((W, b) # ps) inputs =
     and_then (np_dot inputs W) (\<lambda>d.
     and_then (mat_vec_op (+) d b) (\<lambda>outputs.
       hidden_layers ps (mat_map relu outputs)))"

text \<open>\<open>params[-1]\<close> raises \<open>IndexError\<close> on the empty list.\<close>

definition neural_net_predict :: "layer list \<Rightarrow> matrix \<Rightarrow> error + matrix" where
  "neural_net_predict params inputs =
     and_then (hidden_layers (butlast params) inputs) (\<lambda>inputs'.
       case params of
         [] \<Rightarrow> Inl IndexError
       | _ # _ \<Rightarrow>
           (case last params of (outW, outb) \<Rightarrow>
              and_then (np_dot inputs' outW) (\<lambda>d. mat_vec_op (+) d outb)))"

section \<open>The terms of the lower bound\<close>

text \<open>
  Random draws are explicit: a draw is a table \<open>eps i j\<close> of reals, and an array of shape
  \<open>(N, D)\<close> drawn from it holds the entries \<open>i < N\<close>, \<open>j < D\<close>, one per element.
\<close>

definition draw :: "(nat \<Rightarrow> nat \<Rightarrow> real) \<Rightarrow> nat \<Rightarrow> nat \<Rightarrow> matrix" where
  "draw eps N D = Mat D (map (\<lambda>i. map (\<lambda>j. eps i j) [0..<D]) [0..<N])"

definition sample_latent_variables_from_posterior ::
  "matrix \<Rightarrow> (nat \<Rightarrow> nat \<Rightarrow> real) \<Rightarrow> error + matrix" where
  "sample_latent_variables_from_posterior encoder_output eps =
     (let D = ncols encoder_output div 2;
          mean = cols_to D encoder_output;
          log_std = cols_from D encoder_output
      in and_then (mat_op (*) (mat_map exp log_std) (draw eps (nrows mean) (ncols mean)))
           (\<lambda>noise. mat_op (+) mean noise))"

definition bernoulli_log_prob :: "matrix \<Rightarrow> matrix \<Rightarrow> error + vector" where
  "bernoulli_log_prob targets logits =
     (let sig_logits = mat_map sigmoid logits in
      and_then (mat_op (*) targets sig_logits) (\<lambda>a.
      and_then (mat_op (*) (mat_map (\<lambda>x. 1 - x) targets) (mat_map (\<lambda>x. 1 - x) sig_logits)) (\<lambda>b.
      and_then (mat_op (+) a b) (\<lambda>c.
      and_then (np_log c) (\<lambda>l. Inr (sum_axis1 l))))))"

text \<open>
  The divergence over exact reals.  \<open>compute_KL_binary64\<close> below is the same function
  with every operation rounded to binary64.
\<close>

definition compute_KL :: "matrix \<Rightarrow> error + vector" where
  "compute_KL q_means_and_log_stds =
     (let D = ncols q_means_and_log_stds div 2;
          mean = cols_to D q_means_and_log_stds;
          log_std = cols_from D q_means_and_log_stds;
          variance = mat_map exp (mat_map (\<lambda>x. x * 2) log_std)
      in and_then (mat_op (+) variance (mat_map (\<lambda>x. x ^ 2) mean)) (\<lambda>a.
         and_then (mat_op (-) (mat_map (\<lambda>x. x - 1) a) (mat_map (\<lambda>x. 2 * x) log_std)) (\<lambda>b.
           Inr (map (\<lambda>s. 0.5 * s) (sum_axis1 b)))))"

definition vae_lower_bound ::
  "layer list \<Rightarrow> layer list \<Rightarrow> matrix \<Rightarrow> (nat \<Rightarrow> nat \<Rightarrow> real) \<Rightarrow> error + real" where
  "vae_lower_bound gen_params rec_params data eps =
     and_then (neural_net_predict rec_params data) (\<lambda>encoder_output.
     and_then (sample_latent_variables_from_posterior encoder_output eps) (\<lambda>sampled_latent_variables.
     and_then (neural_net_predict gen_params sampled_latent_variables) (\<lambda>decoder_output.
     and_then (bernoulli_log_prob data decoder_output) (\<lambda>log_prob.
     and_then (compute_KL encoder_output) (\<lambda>divergence.
     and_then (vec_op (-) log_prob divergence) np_mean)))))"

section \<open>The network evaluator on a single vector\<close>

text \<open>
  The interpolation calls \<open>neural_net_predict\<close> on one image, a one-dimensional
  array: \<open>np.dot\<close> and \<open>+\<close> then work on vectors.  This is the same source function
  at that argument type.
\<close>

fun hidden_layers_1d :: "layer list \<Rightarrow> vector \<Rightarrow> error + vector" where
  "hidden_layers_1d [] inputs = Inr inputs"
| "hidden_layers_1d ((W, b) # ps) inputs =
     and_then (np_dot_1d inputs W) (\<lambda>d.
     and_then (vec_op (+) d b) (\<lambda>outputs.
       hidden_layers_1d ps (map relu outputs)))"

definition neural_net_predict_1d :: "layer list \<Rightarrow> vector \<Rightarrow> error + vector" where
  "neural_net_predict_1d params inputs =
     and_then (hidden_layers_1d (butlast params) inputs) (\<lambda>inputs'.
       case params of
         [] \<Rightarrow> Inl IndexError
       | _ # _ \<Rightarrow>
           (case last params of (outW, outb) \<Rightarrow>
              and_then (np_dot_1d inputs' outW) (\<lambda>d. vec_op (+) d outb)))"

section \<open>Flattening the parameters\<close>

text \<open>
  Modelled from the spec: \<open>flatten\<close> is imported from the autograd library and is not
  part of the sources.  The spec describes the flattened parameter vector as a single
  one-dimensional buffer, the concatenation of all generator and recognition parameters,
  produced by a reversible transform whose inverse restores the nested structure with
  its shapes.  Arrays are laid out by rows, each weight matrix followed by its bias; the
  inverse cuts the buffer at the sizes of the value it was made from and reshapes.
\<close>

definition ravel :: "matrix \<Rightarrow> vector" where
  "ravel W = concat (rows W)"

fun flatten_net :: "layer list \<Rightarrow> vector" where
  "flatten_net [] = []"
| "flatten_net ((W, b) # ps) = ravel W @ b @ flatten_net ps"

fun chunks :: "nat \<Rightarrow> nat \<Rightarrow> vector \<Rightarrow> vector list" where
  "chunks 0 n xs = []"
| "chunks (Suc k) n xs = take n xs # chunks k n (drop n xs)"

definition reshape :: "nat \<Rightarrow> nat \<Rightarrow> vector \<Rightarrow> matrix" where
  "reshape N n xs = Mat n (chunks N n xs)"

type_synonym layer_shape = "nat \<times> nat \<times> nat"

definition shape_of_layer :: "layer \<Rightarrow> layer_shape" where
  "shape_of_layer l = (nrows (fst l), ncols (fst l), length (snd l))"

definition layer_size :: "layer_shape \<Rightarrow> nat" where
  "layer_size s = (case s of (N, n, k) \<Rightarrow> N * n + k)"

fun unflatten_net :: "layer_shape list \<Rightarrow> vector \<Rightarrow> layer list" where
  "unflatten_net [] xs = []"
| "unflatten_net ((N, n, k) # ss) xs =
     (reshape N n (take (N * n) xs), take k (drop (N * n) xs))
       # unflatten_net ss (drop (N * n + k) xs)"

text \<open>
  Modelled from the spec: autograd's \<open>flatten\<close>, which the sources import and do not
  contain.  It returns the one-dimensional buffer, the generator's parameters followed
  by the recognition network's, and the unflatten transform for vectors of that length.
\<close>

definition flatten ::
  "layer list \<times> layer list \<Rightarrow> vector \<times> (vector \<Rightarrow> error + layer list \<times> layer list)" where
  "flatten combined =
     (case combined of (gen, rec) \<Rightarrow>
        let gs = map shape_of_layer gen; rs = map shape_of_layer rec;
            g = sum_list (map layer_size gs); r = sum_list (map layer_size rs)
        in (flatten_net gen @ flatten_net rec,
            \<lambda>xs. if length xs = g + r
                 then Inr (unflatten_net gs (take g xs), unflatten_net rs (drop g xs))
                 else Inl ValueError))"

text \<open>A valid parameter list: every weight is a well-formed matrix.\<close>

definition valid_params :: "layer list \<Rightarrow> bool" where
  "valid_params ps = list_all (\<lambda>l. wf_matrix (fst l)) ps"

section \<open>The training objective\<close>

text \<open>The fancy index \<open>A[idx, :]\<close> with a list of row numbers.\<close>

definition take_rows :: "matrix \<Rightarrow> nat list \<Rightarrow> error + matrix" where
  "take_rows A idx =
     (if list_all (\<lambda>i. i < nrows A) idx then Inr (Mat (ncols A) (map (\<lambda>i. rows A ! i) idx))
      else Inl IndexError)"

text \<open>
  The three lines that binarize the batch: the mask \<open>on\<close> compares each pixel with its
  own draw of \<open>npr.uniform(size = shape)\<close>, \<open>images\<close> starts as the batch times zero,
  and the masked entries are set to one.
\<close>

definition binarize :: "matrix \<Rightarrow> (nat \<Rightarrow> nat \<Rightarrow> real) \<Rightarrow> matrix" where
  "binarize sel unif =
     (let on = map2 (map2 (\<lambda>x u. u < x)) (rows sel) (rows (draw unif (nrows sel) (ncols sel)));
          images = mat_map (\<lambda>x. x * 0) sel
      in Mat (ncols images) (map2 (map2 (\<lambda>x b. if b then 1 else x)) (rows images) on))"

definition objective ::
  "(vector \<Rightarrow> error + layer list \<times> layer list) \<Rightarrow> matrix \<Rightarrow> nat list
     \<Rightarrow> (nat \<Rightarrow> nat \<Rightarrow> real) \<Rightarrow> (nat \<Rightarrow> nat \<Rightarrow> real) \<Rightarrow> vector \<Rightarrow> error + real" where
  "objective unflat_params train_images batch unif eps flattened_combined_params =
     and_then (unflat_params flattened_combined_params) (\<lambda>combined_params.
       case combined_params of (gen_params, rec_params) \<Rightarrow>
         and_then (take_rows train_images batch) (\<lambda>sel.
           vae_lower_bound gen_params rec_params (binarize sel unif) eps))"

section \<open>The training loop\<close>

definition alpha :: real where "alpha = 0.001"
definition beta1 :: real where "beta1 = 0.9"
definition beta2 :: real where "beta2 = 0.999"
definition epsilon :: real where "epsilon = 1 / 10 ^ 8"

definition batch_size :: nat where "batch_size = 200"
definition num_epochs :: nat where "num_epochs = 30"

text \<open>Division of a vector by a scalar, elementwise division and \<open>np.sqrt\<close>.\<close>

definition div_scalar :: "vector \<Rightarrow> real \<Rightarrow> error + vector" where
  "div_scalar u d = (if d = 0 then Inl NonFinite else Inr (map (\<lambda>x. x / d) u))"

definition vec_div :: "vector \<Rightarrow> vector \<Rightarrow> error + vector" where
  "vec_div u w =
     (if list_all (\<lambda>d. d \<noteq> 0) w then vec_op (/) u w
      else and_then (vec_op (/) u w) (\<lambda>_. Inl NonFinite))"

definition np_sqrt :: "vector \<Rightarrow> error + vector" where
  "np_sqrt u = (if list_all (\<lambda>x. 0 \<le> x) u then Inr (map sqrt u) else Inl NonFinite)"

text \<open>\<open>u += w\<close> writes into \<open>u\<close>, so the broadcast result must have the shape of \<open>u\<close>.\<close>

definition add_in_place :: "vector \<Rightarrow> vector \<Rightarrow> error + vector" where
  "add_in_place u w =
     and_then (vec_op (+) u w) (\<lambda>r. if length r = length u then Inr r else Inl ValueError)"

text \<open>
  The variables of the loop: the flattened parameters, the two moment vectors \<open>m\<close> and
  \<open>v\<close>, the step counter \<open>t\<close> and the running sum \<open>elbo_est\<close>.
\<close>

datatype train_state =
  TrainState (flattened_current_params: vector) (moment_m: vector) (moment_v: vector)
    (counter_t: nat) (elbo_est: real)

definition initial_state :: "vector \<Rightarrow> train_state" where
  "initial_state flattened_combined_params_init =
     TrainState flattened_combined_params_init
       (map (\<lambda>_. 0) flattened_combined_params_init)
       (map (\<lambda>_. 0) flattened_combined_params_init) 1 0"

text \<open>The update of \<open>m\<close>, \<open>v\<close> and the parameters from the gradient of one mini-batch.\<close>

fun adam_update :: "vector \<Rightarrow> train_state \<Rightarrow> error + train_state" where
  "adam_update grad (TrainState params m v t e) =
     and_then (vec_op (+) (map (\<lambda>x. beta1 * x) m) (map (\<lambda>x. (1 - beta1) * x) grad)) (\<lambda>m'.
     and_then (vec_op (+) (map (\<lambda>x. beta2 * x) v) (map (\<lambda>x. (1 - beta2) * x) (map (\<lambda>x. x ^ 2) grad))) (\<lambda>v'.
     and_then (div_scalar m' (1 - beta1 ^ t)) (\<lambda>m_est.
     and_then (div_scalar v' (1 - beta2 ^ t)) (\<lambda>v_est.
     and_then (np_sqrt v_est) (\<lambda>root.
     and_then (vec_div (map (\<lambda>x. alpha * x) m_est) (map (\<lambda>x. x + epsilon) root)) (\<lambda>step.
     and_then (add_in_place params step) (\<lambda>params'.
       Inr (TrainState params' m' v' t e))))))))"

text \<open>
  One pass of the inner loop.  The gradient function obtained from autograd and the
  stochastic objective are parameters; both see the counter, which stands for the state
  of the seeded random generator, the rows of the batch and the current parameters.
\<close>

definition batch_step ::
  "(nat \<Rightarrow> nat list \<Rightarrow> vector \<Rightarrow> error + vector) \<Rightarrow> (nat \<Rightarrow> nat list \<Rightarrow> vector \<Rightarrow> error + real)
     \<Rightarrow> nat \<Rightarrow> nat \<Rightarrow> train_state \<Rightarrow> error + train_state" where
  "batch_step objective_grad objective_fn N n_batch s =
     (let batch = [batch_size * n_batch ..< min N (batch_size * (n_batch + 1))] in
      and_then (objective_grad (counter_t s) batch (flattened_current_params s)) (\<lambda>grad.
      and_then (adam_update grad s) (\<lambda>s'.
      and_then (objective_fn (counter_t s) batch (flattened_current_params s')) (\<lambda>val.
        Inr (TrainState (flattened_current_params s') (moment_m s') (moment_v s')
               (counter_t s' + 1) (elbo_est s' + val))))))"

fun batches_loop ::
  "(nat \<Rightarrow> nat list \<Rightarrow> vector \<Rightarrow> error + vector) \<Rightarrow> (nat \<Rightarrow> nat list \<Rightarrow> vector \<Rightarrow> error + real)
     \<Rightarrow> nat \<Rightarrow> nat list \<Rightarrow> train_state \<Rightarrow> error + train_state" where
  "batches_loop objective_grad objective_fn N [] s = Inr s"
| "batches_loop objective_grad objective_fn N (n_batch # rest) s =
     and_then (batch_step objective_grad objective_fn N n_batch s)
       (batches_loop objective_grad objective_fn N rest)"

fun epochs_loop ::
  "(nat \<Rightarrow> nat list \<Rightarrow> vector \<Rightarrow> error + vector) \<Rightarrow> (nat \<Rightarrow> nat list \<Rightarrow> vector \<Rightarrow> error + real)
     \<Rightarrow> nat \<Rightarrow> nat list \<Rightarrow> train_state \<Rightarrow> error + train_state" where
  "epochs_loop objective_grad objective_fn N [] s = Inr s"
| "epochs_loop objective_grad objective_fn N (epoch # rest) s =
     and_then
       (batches_loop objective_grad objective_fn N
          [0 ..< nat \<lceil>real N / real batch_size\<rceil>]
          (TrainState (flattened_current_params s) (moment_m s) (moment_v s) (counter_t s) 0))
       (epochs_loop objective_grad objective_fn N rest)"

definition train ::
  "(nat \<Rightarrow> nat list \<Rightarrow> vector \<Rightarrow> error + vector) \<Rightarrow> (nat \<Rightarrow> nat list \<Rightarrow> vector \<Rightarrow> error + real)
     \<Rightarrow> nat \<Rightarrow> vector \<Rightarrow> error + train_state" where
  "train objective_grad objective_fn N flattened_combined_params_init =
     epochs_loop objective_grad objective_fn N [0 ..< num_epochs]
       (initial_state flattened_combined_params_init)"

text \<open>
  The update as the specification states it, with its default hyperparameters: the
  moment estimates, their bias correction by \<open>1 - \<beta>\<^sup>t\<close> and the ascent step.
\<close>

definition adam_m_spec :: "vector \<Rightarrow> vector \<Rightarrow> vector" where
  "adam_m_spec m g = map2 (\<lambda>mi gi. 0.9 * mi + (1 - 0.9) * gi) m g"

definition adam_v_spec :: "vector \<Rightarrow> vector \<Rightarrow> vector" where
  "adam_v_spec v g = map2 (\<lambda>vi gi. 0.999 * vi + (1 - 0.999) * gi ^ 2) v g"

definition adam_theta_spec :: "vector \<Rightarrow> vector \<Rightarrow> vector \<Rightarrow> nat \<Rightarrow> vector" where
  "adam_theta_spec theta m v t =
     map (\<lambda>i. theta ! i
               + 0.001 * ((m ! i / (1 - 0.9 ^ t)) / (sqrt (v ! i / (1 - 0.999 ^ t)) + 1 / 10 ^ 8)))
         [0 ..< length theta]"

text \<open>
  What holds of the loop variables at every pass: the three vectors have the length of
  the parameters, the counter is at least one and no entry of \<open>v\<close> is negative.
\<close>

definition adam_inv :: "nat \<Rightarrow> train_state \<Rightarrow> bool" where
  "adam_inv k s =
     (length (flattened_current_params s) = k \<and> length (moment_m s) = k
      \<and> length (moment_v s) = k \<and> 1 \<le> counter_t s
      \<and> list_all (\<lambda>x. 0 \<le> x) (moment_v s))"

text \<open>
  The gradient and the objective always return, and the gradient has the shape of the
  parameters it is taken at.
\<close>

definition well_behaved ::
  "(nat \<Rightarrow> nat list \<Rightarrow> vector \<Rightarrow> error + vector) \<Rightarrow> (nat \<Rightarrow> nat list \<Rightarrow> vector \<Rightarrow> error + real) \<Rightarrow> bool"
  where
  "well_behaved objective_grad objective_fn =
     ((\<forall>t b theta. \<exists>g. objective_grad t b theta = Inr g \<and> length g = length theta)
      \<and> (\<forall>t b theta. \<exists>val. objective_fn t b theta = Inr val))"

section \<open>Interpolation in latent space\<close>

text \<open>\<open>np.linspace(start, stop, num)\<close>: \<open>num\<close> points, the last one set to \<open>stop\<close>.\<close>

definition linspace :: "real \<Rightarrow> real \<Rightarrow> nat \<Rightarrow> real list" where
  "linspace start stop num =
     (if num = 0 then []
      else if num = 1 then [start]
      else map (\<lambda>i. start + real i * ((stop - start) / real (num - 1))) [0 ..< num - 1]
           @ [stop])"

fun sequence :: "(error + 'a) list \<Rightarrow> error + 'a list" where
  "sequence [] = Inr []"
| "sequence (r # rs) = and_then r (\<lambda>x. and_then (sequence rs) (\<lambda>xs. Inr (x # xs)))"

text \<open>
  A list of vectors given to \<open>np.dot\<close> is read as the matrix of its rows; the rows
  must have one length.  The list is never empty where it is used.
\<close>

definition as_matrix :: "vector list \<Rightarrow> error + matrix" where
  "as_matrix vs =
     (case vs of
        [] \<Rightarrow> Inl ValueError
      | v # _ \<Rightarrow>
          if list_all (\<lambda>u. length u = length v) vs then Inr (Mat (length v) vs)
          else Inl ValueError)"

text \<open>The body of the interpolation loop for one pair of test images.\<close>

definition interpolate ::
  "layer list \<Rightarrow> layer list \<Rightarrow> vector \<Rightarrow> vector \<Rightarrow> error + matrix" where
  "interpolate gen_params rec_params image1 image2 =
     and_then (neural_net_predict_1d rec_params image1) (\<lambda>encoder_output1.
     and_then (neural_net_predict_1d rec_params image2) (\<lambda>encoder_output2.
       let D1 = length encoder_output1 div 2;
           mean1 = take D1 encoder_output1;
           D2 = length encoder_output2 div 2;
           mean2 = take D2 encoder_output2
       in and_then
            (sequence (map (\<lambda>s. vec_op (+) (map (\<lambda>x. x * s) mean2) (map (\<lambda>x. (1 - s) * x) mean1))
                         (linspace 0 1 25)))
            (\<lambda>interpolations.
               and_then (as_matrix interpolations) (neural_net_predict gen_params))))"

section \<open>Binary64 arithmetic\<close>

text \<open>
  The running program computes in IEEE binary64.  An arithmetic operation returns the
  exact result rounded to the nearest binary64 number, ties to the even significand; the
  unit in the last place of \<open>x\<close> is \<open>2\<close> to the power \<open>ulp_exponent x\<close>, with gradual
  underflow below \<open>2\<^sup>-\<^sup>1\<^sup>0\<^sup>2\<^sup>2\<close>.  A rounded result of magnitude \<open>2\<^sup>1\<^sup>0\<^sup>2\<^sup>4\<close> or more is
  \<open>inf\<close>, which has no real value and is \<open>NonFinite\<close>.  \<open>np.exp\<close> is taken to return
  the binary64 number nearest to the exact exponential.
\<close>

definition round_even :: "real \<Rightarrow> int" where
  "round_even x =
     (let f = \<lfloor>x\<rfloor>; d = x - of_int f
      in if d < 1 / 2 then f else if 1 / 2 < d then f + 1 else if even f then f else f + 1)"

definition ulp_exponent :: "real \<Rightarrow> int" where
  "ulp_exponent x = max (\<lfloor>log 2 \<bar>x\<bar>\<rfloor> - 52) (- 1074)"

definition binary64 :: "real \<Rightarrow> error + real" where
  "binary64 x =
     (if x = 0 then Inr 0
      else let e = ulp_exponent x;
               r = of_int (round_even (x / 2 powr of_int e)) * 2 powr of_int e
           in if 2 ^ 1024 \<le> \<bar>r\<bar> then Inl NonFinite else Inr r)"

text \<open>Rounding every entry of the result of an array operation.\<close>

definition round_vector :: "vector \<Rightarrow> error + vector" where
  "round_vector v = sequence (map binary64 v)"

definition round_matrix :: "matrix \<Rightarrow> error + matrix" where
  "round_matrix A =
     and_then (sequence (map round_vector (rows A))) (\<lambda>rs. Inr (Mat (ncols A) rs))"

text \<open>
  \<open>np.sum\<close> adds the entries of a row of fewer than eight numbers from left to right,
  rounding after each addition.
\<close>

fun sum_from :: "real \<Rightarrow> vector \<Rightarrow> error + real" where
  "sum_from acc [] = Inr acc"
| "sum_from acc (x # xs) = and_then (binary64 (acc + x)) (\<lambda>s. sum_from s xs)"

text \<open>
  \<open>compute_KL\<close> as it runs, on a matrix of binary64 numbers: each array operation of
  the source is the exact operation followed by rounding.  For rows of eight or more
  terms numpy adds in blocks, in another order; the model leaves those inputs out
  (\<open>None\<close>).
\<close>

definition compute_KL_binary64 :: "matrix \<Rightarrow> (error + vector) option" where
  "compute_KL_binary64 q_means_and_log_stds =
     (if 16 \<le> ncols q_means_and_log_stds then None
      else Some
       (let D = ncols q_means_and_log_stds div 2;
            mean = cols_to D q_means_and_log_stds;
            log_std = cols_from D q_means_and_log_stds
        in and_then (round_matrix (mat_map (\<lambda>x. x * 2) log_std)) (\<lambda>doubled.
           and_then (round_matrix (mat_map exp doubled)) (\<lambda>variance.
           and_then (round_matrix (mat_map (\<lambda>x. x ^ 2) mean)) (\<lambda>squares.
           and_then (mat_op (+) variance squares) (\<lambda>a_exact.
           and_then (round_matrix a_exact) (\<lambda>a.
           and_then (round_matrix (mat_map (\<lambda>x. x - 1) a)) (\<lambda>a1.
           and_then (round_matrix (mat_map (\<lambda>x. 2 * x) log_std)) (\<lambda>twice.
           and_then (mat_op (-) a1 twice) (\<lambda>b_exact.
           and_then (round_matrix b_exact) (\<lambda>b.
           and_then (sequence (map (sum_from 0) (rows b))) (\<lambda>row_sums.
             round_vector (map (\<lambda>s. 0.5 * s) row_sums)))))))))))))"

section \<open>Reference formulas of the specification\<close>

text \<open>
  The log-likelihood as the specification words it: for each row, the sum over the
  feature axis of \<open>target * log p + (1 - target) * log (1 - p)\<close> with \<open>p\<close> the sigmoid
  of the logit.
\<close>

definition bernoulli_log_prob_spec :: "matrix \<Rightarrow> matrix \<Rightarrow> vector" where
  "bernoulli_log_prob_spec targets logits =
     map (\<lambda>i. \<Sum>j<ncols targets.
                entry targets i j * ln (sigmoid (entry logits i j))
                + (1 - entry targets i j) * ln (1 - sigmoid (entry logits i j)))
         [0 ..< nrows targets]"

text \<open>
  The network evaluator as the specification words it: every layer except the last is an
  affine transform (matrix product plus broadcast bias) followed by the rectifier, the
  last layer is affine only.
\<close>

definition affine :: "layer \<Rightarrow> matrix \<Rightarrow> error + matrix" where
  "affine l X = and_then (np_dot X (fst l)) (\<lambda>d. mat_vec_op (+) d (snd l))"

definition affine_1d :: "layer \<Rightarrow> vector \<Rightarrow> error + vector" where
  "affine_1d l x = and_then (np_dot_1d x (fst l)) (\<lambda>d. vec_op (+) d (snd l))"

fun forward_spec :: "layer list \<Rightarrow> matrix \<Rightarrow> error + matrix" where
  "forward_spec [l] X = affine l X"
| "forward_spec (l # l' # ls) X =
     and_then (affine l X) (\<lambda>Y. forward_spec (l' # ls) (mat_map relu Y))"

text \<open>
  The shapes of the data model: a weight matrix of shape \<open>in_dim \<times> out_dim\<close> with a bias
  of length \<open>out_dim\<close>, each layer taking the width the previous one produces.  The list
  maps inputs of width \<open>d\<close> to outputs of width \<open>n\<close>.
\<close>

fun layers_conform :: "layer list \<Rightarrow> nat \<Rightarrow> nat \<Rightarrow> bool" where
  "layers_conform [] d n = (d = n)"
| "layers_conform ((W, b) # ps) d n =
     (has_shape W d (length b) \<and> layers_conform ps (length b) n)"

section \<open>Basic facts about the array operations\<close>

lemma and_then_Inr [simp]: "and_then (Inr x) f = f x"
  by (simp add: and_then_def)

lemma and_then_Inl [simp]: "and_then (Inl e) f = Inl e"
  by (simp add: and_then_def)

lemma broadcast_dim_same [simp]: "broadcast_dim a a = Inr a"
  by (simp add: broadcast_dim_def)

lemma stretch_same [simp]: "stretch (length xs) xs = xs"
  by (simp add: stretch_def)

lemma has_shape_row: "has_shape M N n \<Longrightarrow> i < N \<Longrightarrow> length (rows M ! i) = n"
  by (auto simp: has_shape_def wf_matrix_def nrows_def list_all_length)

lemma has_shape_length: "has_shape M N n \<Longrightarrow> length (rows M) = N"
  by (simp add: has_shape_def nrows_def)

lemma has_shapeI:
  "length (rows M) = N \<Longrightarrow> ncols M = n \<Longrightarrow> (\<And>i. i < N \<Longrightarrow> length (rows M ! i) = n)
   \<Longrightarrow> has_shape M N n"
  by (auto simp: has_shape_def wf_matrix_def nrows_def list_all_length)

lemma mat_op_same_shape:
  assumes A: "has_shape A N n" and B: "has_shape B N n"
  shows "mat_op f A B = Inr (Mat n (map2 (map2 f) (rows A) (rows B)))"
proof -
  have "map2 (\<lambda>a b. map2 f (stretch n a) (stretch n b)) (rows A) (rows B)
        = map2 (map2 f) (rows A) (rows B)"
  proof (rule map_cong [OF refl])
    fix p assume p: "p \<in> set (zip (rows A) (rows B))"
    obtain a b where ab: "p = (a, b)" by (cases p)
    have "a \<in> set (rows A)" "b \<in> set (rows B)"
      using p ab by (auto dest: set_zip_leftD set_zip_rightD)
    then have "length a = n" "length b = n"
      using A B by (auto simp: has_shape_def wf_matrix_def list_all_iff)
    then show "(case p of (a, b) \<Rightarrow> map2 f (stretch n a) (stretch n b))
               = (case p of (a, b) \<Rightarrow> map2 f a b)"
      by (simp add: ab stretch_def)
  qed
  then show ?thesis
    using A B by (simp add: mat_op_def has_shape_def nrows_def stretch_def)
qed

lemma mat_op_shape:
  assumes A: "has_shape A N n" and B: "has_shape B N n"
  shows "\<exists>R. mat_op f A B = Inr R \<and> has_shape R N n
           \<and> (\<forall>i<N. \<forall>j<n. entry R i j = f (entry A i j) (entry B i j))"
proof -
  let ?R = "Mat n (map2 (map2 f) (rows A) (rows B))"
  have lenA: "length (rows A) = N" and lenB: "length (rows B) = N"
    using A B by (simp_all add: has_shape_def nrows_def)
  have "has_shape ?R N n"
    by (rule has_shapeI) (simp_all add: lenA lenB has_shape_row [OF A] has_shape_row [OF B])
  moreover have "entry ?R i j = f (entry A i j) (entry B i j)" if "i < N" "j < n" for i j
    using that by (simp add: entry_def lenA lenB has_shape_row [OF A] has_shape_row [OF B])
  ultimately show ?thesis
    using mat_op_same_shape [OF A B] by blast
qed

lemma mat_map_shape: "has_shape A N n \<Longrightarrow> has_shape (mat_map g A) N n"
  by (auto simp: has_shape_def mat_map_def nrows_def wf_matrix_def list_all_iff)

lemma entry_mat_map:
  "has_shape A N n \<Longrightarrow> i < N \<Longrightarrow> j < n \<Longrightarrow> entry (mat_map g A) i j = g (entry A i j)"
  by (auto simp: has_shape_def mat_map_def nrows_def wf_matrix_def list_all_length entry_def)

lemma sum_axis1_nth:
  "has_shape A N n \<Longrightarrow> i < N \<Longrightarrow> sum_axis1 A ! i = (\<Sum>j<n. entry A i j)"
  by (simp add: sum_axis1_def has_shape_length has_shape_row entry_def sum_list_sum_nth
      atLeast0LessThan)

lemma length_sum_axis1: "has_shape A N n \<Longrightarrow> length (sum_axis1 A) = N"
  by (simp add: sum_axis1_def has_shape_length)

lemma np_log_positive:
  assumes A: "has_shape A N n" and pos: "\<And>i j. i < N \<Longrightarrow> j < n \<Longrightarrow> 0 < entry A i j"
  shows "np_log A = Inr (mat_map ln A)"
proof -
  have "list_all (list_all (\<lambda>x. 0 < x)) (rows A)"
    unfolding list_all_length
  proof (intro allI impI)
    fix i j assume i: "i < length (rows A)" and j: "j < length (rows A ! i)"
    have iN: "i < N" using i A by (simp add: has_shape_length)
    then have "j < n" using j has_shape_row [OF A iN] by simp
    then show "0 < rows A ! i ! j" using pos [OF iN] by (simp add: entry_def)
  qed
  then show ?thesis by (simp add: np_log_def)
qed

lemma sigmoid_pos: "0 < sigmoid x"
  by (simp add: sigmoid_def add_pos_pos)

lemma sigmoid_less_one: "sigmoid x < 1"
  by (simp add: sigmoid_def add_pos_pos)

section \<open>The Bernoulli log-likelihood\<close>

lemma bernoulli_log_prob_value:
  assumes T: "has_shape T N n" and L: "has_shape L N n"
    and pos: "\<And>i j. i < N \<Longrightarrow> j < n \<Longrightarrow>
           0 < entry T i j * sigmoid (entry L i j) + (1 - entry T i j) * (1 - sigmoid (entry L i j))"
  shows "\<exists>r. bernoulli_log_prob T L = Inr r \<and> length r = N
           \<and> (\<forall>i<N. r ! i = (\<Sum>j<n. ln (entry T i j * sigmoid (entry L i j)
                                      + (1 - entry T i j) * (1 - sigmoid (entry L i j)))))"
proof -
  let ?S = "mat_map sigmoid L"
  let ?T' = "mat_map (\<lambda>x. 1 - x) T"
  let ?S' = "mat_map (\<lambda>x. 1 - x) ?S"
  have S: "has_shape ?S N n" by (rule mat_map_shape [OF L])
  have T': "has_shape ?T' N n" by (rule mat_map_shape [OF T])
  have S': "has_shape ?S' N n" by (rule mat_map_shape [OF S])
  obtain a where a: "mat_op (*) T ?S = Inr a" "has_shape a N n"
    and ea: "\<forall>i<N. \<forall>j<n. entry a i j = entry T i j * entry ?S i j"
    using mat_op_shape [OF T S] by blast
  obtain b where b: "mat_op (*) ?T' ?S' = Inr b" "has_shape b N n"
    and eb: "\<forall>i<N. \<forall>j<n. entry b i j = entry ?T' i j * entry ?S' i j"
    using mat_op_shape [OF T' S'] by blast
  obtain c where c: "mat_op (+) a b = Inr c" "has_shape c N n"
    and ec: "\<forall>i<N. \<forall>j<n. entry c i j = entry a i j + entry b i j"
    using mat_op_shape [OF a(2) b(2)] by blast
  have ec': "entry c i j = entry T i j * sigmoid (entry L i j)
                + (1 - entry T i j) * (1 - sigmoid (entry L i j))" if "i < N" "j < n" for i j
    using that ea eb ec
    by (simp add: entry_mat_map [OF L] entry_mat_map [OF T] entry_mat_map [OF S])
  have lg: "np_log c = Inr (mat_map ln c)"
    by (rule np_log_positive [OF c(2)]) (simp add: ec' pos)
  have lshape: "has_shape (mat_map ln c) N n" by (rule mat_map_shape [OF c(2)])
  have res: "bernoulli_log_prob T L = Inr (sum_axis1 (mat_map ln c))"
    by (simp add: bernoulli_log_prob_def Let_def a(1) b(1) c(1) lg)
  have "sum_axis1 (mat_map ln c) ! i
          = (\<Sum>j<n. ln (entry T i j * sigmoid (entry L i j)
                        + (1 - entry T i j) * (1 - sigmoid (entry L i j))))" if i: "i < N" for i
    by (simp add: sum_axis1_nth [OF lshape i] entry_mat_map [OF c(2) i] ec' [OF i])
  then show ?thesis
    using res length_sum_axis1 [OF lshape] by blast
qed

lemma bernoulli_argument_pos:
  assumes "0 \<le> t" "t \<le> 1"
  shows "0 < t * sigmoid x + (1 - t) * (1 - sigmoid x)"
proof (cases "t = 0")
  case True
  then show ?thesis using sigmoid_less_one [of x] by simp
next
  case False
  then have "0 < t * sigmoid x" using assms sigmoid_pos [of x] by simp
  moreover have "0 \<le> (1 - t) * (1 - sigmoid x)"
    using assms sigmoid_less_one [of x] by simp
  ultimately show ?thesis by linarith
qed

text \<open>
  Claim C9.  Over the reals the sigmoid of every number lies strictly between 0 and 1.
  Hence, for a target matrix with entries 0 or 1 and a logits matrix of the same shape,
  every argument of the logarithm in \<open>bernoulli_log_prob\<close> is strictly positive and the
  function returns a value (one number per row), although the code does not clamp the
  probabilities.
\<close>

theorem sigmoid_keeps_logarithm_defined:
  assumes T: "has_shape targets N n" and L: "has_shape logits N n"
    and bin: "\<forall>i<N. \<forall>j<n. entry targets i j = 0 \<or> entry targets i j = 1"
  shows "(\<forall>x. 0 < sigmoid x \<and> sigmoid x < 1)
       \<and> (\<forall>i<N. \<forall>j<n. 0 < entry targets i j * sigmoid (entry logits i j)
                           + (1 - entry targets i j) * (1 - sigmoid (entry logits i j)))
       \<and> (\<exists>r. bernoulli_log_prob targets logits = Inr r \<and> length r = N)"
proof -
  have pos: "0 < entry targets i j * sigmoid (entry logits i j)
                 + (1 - entry targets i j) * (1 - sigmoid (entry logits i j))"
    if "i < N" "j < n" for i j
  proof -
    have "0 \<le> entry targets i j \<and> entry targets i j \<le> 1" using bin that by fastforce
    then show ?thesis using bernoulli_argument_pos by blast
  qed
  from bernoulli_log_prob_value [OF T L pos]
  have "\<exists>r. bernoulli_log_prob targets logits = Inr r \<and> length r = N" by blast
  then show ?thesis using pos sigmoid_pos sigmoid_less_one by blast
qed

theorem sigmoid_keeps_logarithm_defined_witness:
  "has_shape (Mat 2 [[0, 1]]) 1 2 \<and> has_shape (Mat 2 [[0, 0]]) 1 2
   \<and> entry (Mat 2 [[0, 1]]) 0 0 = 0 \<and> entry (Mat 2 [[0, 1]]) 0 1 = 1
   \<and> 0 < sigmoid 0 \<and> sigmoid 0 < 1
   \<and> (\<exists>r. bernoulli_log_prob (Mat 2 [[0, 1]]) (Mat 2 [[0, 0]]) = Inr r \<and> length r = 1)"
proof -
  have T: "has_shape (Mat 2 [[0, 1]]) 1 2" and L: "has_shape (Mat 2 [[0, 0]]) 1 2"
    by (simp_all add: has_shape_def nrows_def wf_matrix_def)
  have bin: "\<forall>i<1. \<forall>j<2. entry (Mat 2 [[0, 1]]) i j = 0 \<or> entry (Mat 2 [[0, 1]]) i j = 1"
    by (simp add: entry_def less_Suc_eq numeral_2_eq_2)
  have e: "entry (Mat 2 [[0, 1]]) 0 0 = 0" "entry (Mat 2 [[0, 1]]) 0 1 = 1"
    by (simp_all add: entry_def)
  show ?thesis
    using sigmoid_keeps_logarithm_defined [OF T L bin] T L e by blast
qed

text \<open>
  As worded for every target in the interval from 0 to 1, the formula fails: the code
  takes the logarithm of \<open>target * p + (1 - target) * (1 - p)\<close>.  At the target
  \<open>1/2\<close> and the logit \<open>- ln 2\<close> (so \<open>p = 1/3\<close>) it returns \<open>ln (1/2)\<close>, not
  \<open>1/2 * ln (1/3) + 1/2 * ln (2/3)\<close>.
\<close>

lemma sigmoid_neg_ln2: "sigmoid (- ln 2) = 1 / 3"
  by (simp add: sigmoid_def)

lemma ln_half_differs: "ln (1 / 2 :: real) \<noteq> 1 / 2 * ln (1 / 3) + (1 - 1 / 2) * ln (1 - 1 / 3)"
proof
  assume eq: "ln (1 / 2 :: real) = 1 / 2 * ln (1 / 3) + (1 - 1 / 2) * ln (1 - 1 / 3)"
  have a: "ln (2 / 9 :: real) = ln (1 / 3) + ln (2 / 3)"
    using ln_mult [of "1 / 3 :: real" "2 / 3"] by simp
  have b: "ln (1 / 4 :: real) = 2 * ln (1 / 2)"
    using ln_mult [of "1 / 2 :: real" "1 / 2"] by simp
  have "ln (1 / 4 :: real) = ln (2 / 9)"
    using eq a b by simp
  then have "(1 / 4 :: real) = 2 / 9"
    by (subst (asm) ln_inj_iff) simp_all
  then show False by simp
qed

theorem bernoulli_log_prob_fractional_target_counterexample:
  "has_shape (Mat 1 [[1 / 2]]) 1 1 \<and> has_shape (Mat 1 [[- ln 2]]) 1 1
   \<and> 0 \<le> entry (Mat 1 [[1 / 2]]) 0 0 \<and> entry (Mat 1 [[1 / 2]]) 0 0 \<le> 1
   \<and> bernoulli_log_prob (Mat 1 [[1 / 2]]) (Mat 1 [[- ln 2]]) = Inr [ln (1 / 2)]
   \<and> bernoulli_log_prob_spec (Mat 1 [[1 / 2]]) (Mat 1 [[- ln 2]])
       = [1 / 2 * ln (1 / 3) + (1 - 1 / 2) * ln (1 - 1 / 3)]
   \<and> bernoulli_log_prob (Mat 1 [[1 / 2]]) (Mat 1 [[- ln 2]])
       \<noteq> Inr (bernoulli_log_prob_spec (Mat 1 [[1 / 2]]) (Mat 1 [[- ln 2]]))"
proof -
  have code: "bernoulli_log_prob (Mat 1 [[1 / 2]]) (Mat 1 [[- ln 2]]) = Inr [ln (1 / 2)]"
    by (simp add: bernoulli_log_prob_def mat_map_def mat_op_def nrows_def np_log_def
        sum_axis1_def sigmoid_neg_ln2 stretch_def)
  have spec: "bernoulli_log_prob_spec (Mat 1 [[1 / 2]]) (Mat 1 [[- ln 2]])
       = [1 / 2 * ln (1 / 3) + (1 - 1 / 2) * ln (1 - 1 / 3)]"
    by (simp add: bernoulli_log_prob_spec_def nrows_def entry_def sigmoid_neg_ln2)
  have shapes: "has_shape (Mat 1 [[1 / 2]]) 1 1" "has_shape (Mat 1 [[- ln 2]]) 1 1"
    by (simp_all add: has_shape_def nrows_def wf_matrix_def)
  have range: "0 \<le> entry (Mat 1 [[1 / 2]]) 0 0" "entry (Mat 1 [[1 / 2]]) 0 0 \<le> 1"
    by (simp_all add: entry_def)
  have "bernoulli_log_prob (Mat 1 [[1 / 2]]) (Mat 1 [[- ln 2]])
       \<noteq> Inr (bernoulli_log_prob_spec (Mat 1 [[1 / 2]]) (Mat 1 [[- ln 2]]))"
    unfolding code spec using ln_half_differs by simp
  then show ?thesis using code spec shapes range by blast
qed

text \<open>
  Claim C1, amended.  For a target matrix whose entries are 0 or 1 and a logits matrix
  of the same shape, \<open>bernoulli_log_prob\<close> returns for each row the sum over the
  feature axis of \<open>target * log p + (1 - target) * log (1 - p)\<close>, where \<open>p\<close> is the
  sigmoid of the logit.
\<close>

theorem bernoulli_log_prob_binary_targets:
  assumes T: "has_shape targets N n" and L: "has_shape logits N n"
    and bin: "\<forall>i<N. \<forall>j<n. entry targets i j = 0 \<or> entry targets i j = 1"
  shows "bernoulli_log_prob targets logits = Inr (bernoulli_log_prob_spec targets logits)"
proof -
  have pos: "0 < entry targets i j * sigmoid (entry logits i j)
                 + (1 - entry targets i j) * (1 - sigmoid (entry logits i j))"
    if "i < N" "j < n" for i j
  proof -
    have "0 \<le> entry targets i j \<and> entry targets i j \<le> 1" using bin that by fastforce
    then show ?thesis using bernoulli_argument_pos by blast
  qed
  from bernoulli_log_prob_value [OF T L pos] obtain r where
    r: "bernoulli_log_prob targets logits = Inr r" "length r = N"
    and rv: "\<forall>i<N. r ! i = (\<Sum>j<n. ln (entry targets i j * sigmoid (entry logits i j)
                    + (1 - entry targets i j) * (1 - sigmoid (entry logits i j))))"
    by blast
  have "r = bernoulli_log_prob_spec targets logits"
  proof (rule nth_equalityI)
    show "length r = length (bernoulli_log_prob_spec targets logits)"
      using r(2) T by (simp add: bernoulli_log_prob_spec_def has_shape_def)
    fix i assume "i < length r"
    then have i: "i < N" using r(2) by simp
    have "ln (entry targets i j * sigmoid (entry logits i j)
              + (1 - entry targets i j) * (1 - sigmoid (entry logits i j)))
          = entry targets i j * ln (sigmoid (entry logits i j))
              + (1 - entry targets i j) * ln (1 - sigmoid (entry logits i j))"
      if "j < n" for j
    proof -
      have "entry targets i j = 0 \<or> entry targets i j = 1" using bin i that by blast
      then show ?thesis by (elim disjE) simp_all
    qed
    then show "r ! i = bernoulli_log_prob_spec targets logits ! i"
      using rv i T by (simp add: bernoulli_log_prob_spec_def has_shape_def)
  qed
  then show ?thesis using r(1) by simp
qed

theorem bernoulli_log_prob_binary_targets_witness:
  "has_shape (Mat 2 [[0, 1]]) 1 2 \<and> has_shape (Mat 2 [[0, 0]]) 1 2
   \<and> entry (Mat 2 [[0, 1]]) 0 0 = 0 \<and> entry (Mat 2 [[0, 1]]) 0 1 = 1
   \<and> bernoulli_log_prob (Mat 2 [[0, 1]]) (Mat 2 [[0, 0]])
       = Inr (bernoulli_log_prob_spec (Mat 2 [[0, 1]]) (Mat 2 [[0, 0]]))
   \<and> bernoulli_log_prob_spec (Mat 2 [[0, 1]]) (Mat 2 [[0, 0]]) = [2 * ln (1 / 2)]"
proof -
  have T: "has_shape (Mat 2 [[0, 1]]) 1 2" and L: "has_shape (Mat 2 [[0, 0]]) 1 2"
    by (simp_all add: has_shape_def nrows_def wf_matrix_def)
  have bin: "\<forall>i<1. \<forall>j<2. entry (Mat 2 [[0, 1]]) i j = 0 \<or> entry (Mat 2 [[0, 1]]) i j = 1"
    by (simp add: entry_def less_Suc_eq numeral_2_eq_2)
  have "bernoulli_log_prob_spec (Mat 2 [[0, 1]]) (Mat 2 [[0, 0]]) = [2 * ln (1 / 2)]"
    by (simp add: bernoulli_log_prob_spec_def nrows_def entry_def sigmoid_def numeral_2_eq_2)
  moreover have "entry (Mat 2 [[0, 1]]) 0 0 = 0" "entry (Mat 2 [[0, 1]]) 0 1 = 1"
    by (simp_all add: entry_def)
  ultimately show ?thesis
    using bernoulli_log_prob_binary_targets [OF T L bin] T L by blast
qed

section \<open>The divergence term\<close>

lemma cols_to_shape: "has_shape q N n \<Longrightarrow> D \<le> n \<Longrightarrow> has_shape (cols_to D q) N D"
  by (auto simp: has_shape_def cols_to_def nrows_def wf_matrix_def list_all_iff)

lemma cols_from_shape: "has_shape q N n \<Longrightarrow> has_shape (cols_from D q) N (n - D)"
  by (auto simp: has_shape_def cols_from_def nrows_def wf_matrix_def list_all_iff)

lemma entry_cols_to:
  "has_shape q N n \<Longrightarrow> i < N \<Longrightarrow> j < D \<Longrightarrow> entry (cols_to D q) i j = entry q i j"
  by (simp add: entry_def cols_to_def has_shape_length)

lemma entry_cols_from:
  "has_shape q N n \<Longrightarrow> i < N \<Longrightarrow> D + j < n \<Longrightarrow> entry (cols_from D q) i j = entry q i (D + j)"
  by (simp add: entry_def cols_from_def has_shape_length has_shape_row)

lemma kl_term_nonneg: "0 \<le> exp (s * 2) + m ^ 2 - 1 - 2 * (s::real)"
proof -
  have "1 + s * 2 \<le> exp (s * 2)" by (rule exp_ge_add_one_self)
  moreover have "0 \<le> m ^ 2" by simp
  ultimately show ?thesis by linarith
qed

lemma compute_KL_value:
  assumes q: "has_shape q N (2 * L)"
  shows "\<exists>kl. compute_KL q = Inr kl \<and> length kl = N
           \<and> (\<forall>i<N. kl ! i = 0.5 * (\<Sum>j<L. exp (entry q i (L + j) * 2) + (entry q i j) ^ 2 - 1
                                          - 2 * entry q i (L + j)))"
proof -
  let ?mean = "cols_to L q"
  let ?ls = "cols_from L q"
  let ?var = "mat_map exp (mat_map (\<lambda>x. x * 2) ?ls)"
  have D: "ncols q div 2 = L" using q by (simp add: has_shape_def)
  have mean: "has_shape ?mean N L" by (rule cols_to_shape [OF q]) simp
  have ls: "has_shape ?ls N L" using cols_from_shape [OF q, of L] by simp
  have ls2: "has_shape (mat_map (\<lambda>x. x * 2) ?ls) N L" by (rule mat_map_shape [OF ls])
  have var: "has_shape ?var N L" by (rule mat_map_shape [OF ls2])
  have sq: "has_shape (mat_map (\<lambda>x. x ^ 2) ?mean) N L" by (rule mat_map_shape [OF mean])
  have tw: "has_shape (mat_map (\<lambda>x. 2 * x) ?ls) N L" by (rule mat_map_shape [OF ls])
  obtain a where a: "mat_op (+) ?var (mat_map (\<lambda>x. x ^ 2) ?mean) = Inr a" "has_shape a N L"
    and ea: "\<forall>i<N. \<forall>j<L. entry a i j = entry ?var i j + entry (mat_map (\<lambda>x. x ^ 2) ?mean) i j"
    using mat_op_shape [OF var sq] by blast
  have a1: "has_shape (mat_map (\<lambda>x. x - 1) a) N L" by (rule mat_map_shape [OF a(2)])
  obtain b where b: "mat_op (-) (mat_map (\<lambda>x. x - 1) a) (mat_map (\<lambda>x. 2 * x) ?ls) = Inr b"
      "has_shape b N L"
    and eb: "\<forall>i<N. \<forall>j<L. entry b i j
               = entry (mat_map (\<lambda>x. x - 1) a) i j - entry (mat_map (\<lambda>x. 2 * x) ?ls) i j"
    using mat_op_shape [OF a1 tw] by blast
  have eb': "entry b i j = exp (entry q i (L + j) * 2) + (entry q i j) ^ 2 - 1
                 - 2 * entry q i (L + j)" if "i < N" "j < L" for i j
    using that ea eb
    by (simp add: entry_mat_map [OF a(2)] entry_mat_map [OF ls] entry_mat_map [OF ls2]
        entry_mat_map [OF mean] entry_cols_to [OF q] entry_cols_from [OF q])
  have res: "compute_KL q = Inr (map (\<lambda>s. 0.5 * s) (sum_axis1 b))"
    by (simp add: compute_KL_def Let_def D a(1) b(1))
  have "map (\<lambda>s. 0.5 * s) (sum_axis1 b) ! i
          = 0.5 * (\<Sum>j<L. exp (entry q i (L + j) * 2) + (entry q i j) ^ 2 - 1
                          - 2 * entry q i (L + j))" if i: "i < N" for i
    using i by (simp add: length_sum_axis1 [OF b(2)] sum_axis1_nth [OF b(2) i] eb' [OF i])
  then show ?thesis
    using res length_sum_axis1 [OF b(2)] by auto
qed

text \<open>
  In binary64 the divergence can come out negative.  At mean \<open>0\<close> and log standard
  deviation \<open>1e-9\<close> (the binary64 number \<open>4835703278458517 / 2\<^sup>8\<^sup>2\<close>) the exponential
  of the doubled log standard deviation rounds down, the subtractions are exact, and the
  row comes out as \<open>- 136763029 / 2\<^sup>8\<^sup>2\<close>, about \<open>-2.83e-17\<close>.
\<close>

lemma round_even_of_int: "round_even (of_int z) = z"
  by (simp add: round_even_def)

lemma round_even_near:
  assumes "of_int z - 1 / 2 < x" "x < of_int z + 1 / 2"
  shows "round_even x = z"
proof (cases "of_int z \<le> x")
  case True
  then have f: "\<lfloor>x\<rfloor> = z" using assms(2) by (intro floor_unique) simp_all
  show ?thesis using assms(2) by (simp add: round_even_def f Let_def)
next
  case False
  then have f: "\<lfloor>x\<rfloor> = z - 1" using assms(1) by (intro floor_unique) simp_all
  show ?thesis using assms(1) False by (simp add: round_even_def f Let_def)
qed

lemma binary64_exact:
  assumes n: "\<bar>n\<bar> < 2 ^ 53" and k: "k \<le> 1074"
  shows "binary64 (of_int n / 2 ^ k) = Inr (of_int n / 2 ^ k)"
proof (cases "n = 0")
  case True
  then show ?thesis by (simp add: binary64_def)
next
  case False
  define x :: real where "x = of_int n / 2 ^ k"
  have x0: "x \<noteq> 0" using False by (simp add: x_def)
  have ax: "\<bar>x\<bar> = of_int \<bar>n\<bar> / 2 ^ k" by (simp add: x_def abs_divide)
  have "of_int \<bar>n\<bar> < (2 :: real) ^ 53" using n by (metis of_int_less_numeral_power_cancel_iff)
  then have "\<bar>x\<bar> < 2 ^ 53 / 2 ^ k" unfolding ax by (simp add: divide_strict_right_mono)
  also have "\<dots> = 2 powr (53 - real k)"
    by (simp add: powr_diff powr_realpow)
  finally have "log 2 \<bar>x\<bar> < 53 - real k"
    using x0 by (simp add: log_less_iff)
  then have "\<lfloor>log 2 \<bar>x\<bar>\<rfloor> < 53 - int k"
    by (simp add: floor_less_iff)
  then have e: "ulp_exponent x \<le> - int k"
    using k by (simp add: ulp_exponent_def)
  define j where "j = nat (- int k - ulp_exponent x)"
  have je: "(of_int (ulp_exponent x) :: real) = - real k - real j"
    using e by (simp add: j_def)
  have p: "(2 :: real) powr of_int (ulp_exponent x) = 1 / (2 ^ k * 2 ^ j)"
    unfolding je by (simp add: powr_diff powr_minus powr_realpow field_simps)
  have q: "x / 2 powr of_int (ulp_exponent x) = of_int (n * 2 ^ j)"
    unfolding p by (simp add: x_def)
  have r: "of_int (round_even (x / 2 powr of_int (ulp_exponent x))) * 2 powr of_int (ulp_exponent x) = x"
    unfolding q round_even_of_int unfolding p by (simp add: x_def)
  have "\<bar>x\<bar> < 2 ^ 53" 
  proof -
    have "\<bar>x\<bar> \<le> of_int \<bar>n\<bar>" unfolding ax by (simp add: divide_le_eq_1 field_simps mult_le_cancel_left1)
    then show ?thesis using \<open>of_int \<bar>n\<bar> < (2 :: real) ^ 53\<close> by linarith
  qed
  moreover have "(2 :: real) ^ 53 < 2 ^ 1024" by simp
  ultimately have b: "\<not> 2 ^ 1024 \<le> \<bar>x\<bar>" by linarith
  show ?thesis
    unfolding x_def [symmetric] using x0 b by (simp add: binary64_def Let_def r)
qed


lemma binary64_round:
  fixes x :: real
  assumes lo: "2 powr of_int L \<le> \<bar>x\<bar>" and hi: "\<bar>x\<bar> < 2 powr (of_int L + 1)"
    and normal: "- 1022 \<le> L"
    and z1: "of_int z - 1 / 2 < x / 2 powr of_int (L - 52)"
    and z2: "x / 2 powr of_int (L - 52) < of_int z + 1 / 2"
    and fin: "\<bar>of_int z * (2 :: real) powr of_int (L - 52)\<bar> < 2 ^ 1024"
  shows "binary64 x = Inr (of_int z * 2 powr of_int (L - 52))"
proof -
  have pos: "0 < \<bar>x\<bar>" using lo by (smt (verit) powr_gt_zero)
  then have x0: "x \<noteq> 0" by simp
  have "\<lfloor>log 2 \<bar>x\<bar>\<rfloor> = L"
    using lo hi pos by (simp add: floor_log_eq_powr_iff)
  then have e: "ulp_exponent x = L - 52"
    using normal by (simp add: ulp_exponent_def)
  have r: "round_even (x / 2 powr of_int (L - 52)) = z"
    by (rule round_even_near [OF z1 z2])
  have nf: "\<not> 2 ^ 1024 \<le> \<bar>of_int z * (2 :: real) powr of_int (L - 52)\<bar>"
    using fin by (simp only: not_le)
  show ?thesis
    unfolding binary64_def Let_def e r
    by (simp only: x0 nf if_False)
qed

lemma binary64_1e9: "binary64 (1 / 10 ^ 9) = Inr (4835703278458517 / 2 ^ 82)"
proof -
  have p30: "(2 :: real) powr of_int (- 30) = 1 / 2 ^ 30"
    by (simp add: powr_minus_divide powr_realpow [symmetric])
  have p29: "(2 :: real) powr (of_int (- 30) + 1) = 1 / 2 ^ 29"
    by (simp add: powr_minus_divide powr_realpow [symmetric])
  have p82: "(2 :: real) powr of_int (- 30 - 52) = 1 / 2 ^ 82"
    by (simp add: powr_minus_divide powr_realpow [symmetric])
  have big: "(4835703278458517 :: real) / 2 ^ 82 < 2 ^ 1024"
  proof -
    have "(4835703278458517 :: real) / 2 ^ 82 < 1" by simp
    also have "(1 :: real) < 2 ^ 1024" by (rule one_less_power) simp_all
    finally show ?thesis .
  qed
  have "binary64 (1 / 10 ^ 9) = Inr (of_int 4835703278458517 * 2 powr of_int (- 30 - 52))"
  proof (rule binary64_round)
    show "2 powr of_int (- 30) \<le> \<bar>1 / 10 ^ 9 :: real\<bar>" unfolding p30 by simp
    show "\<bar>1 / 10 ^ 9 :: real\<bar> < 2 powr (of_int (- 30) + 1)" unfolding p29 by simp
    show "- 1022 \<le> (- 30 :: int)" by simp
    show "of_int 4835703278458517 - 1 / 2 < (1 / 10 ^ 9 :: real) / 2 powr of_int (- 30 - 52)"
      unfolding p82 by simp
    show "(1 / 10 ^ 9 :: real) / 2 powr of_int (- 30 - 52) < of_int 4835703278458517 + 1 / 2"
      unfolding p82 by simp
    show "\<bar>of_int 4835703278458517 * (2 :: real) powr of_int (- 30 - 52)\<bar> < 2 ^ 1024"
      unfolding p82 using big by (simp del: power_numeral)
  qed
  then show ?thesis unfolding p82 by simp
qed


lemma binary64_exp_2e9:
  "binary64 (exp (4835703278458517 / 2 ^ 81)) = Inr (4503599636377695 / 2 ^ 52)"
proof -
  define t :: real where "t = 4835703278458517 / 2 ^ 81"
  have t0: "0 \<le> t" and t1: "t \<le> 1" by (simp_all add: t_def)
  have lower: "1 + t \<le> exp t" by (rule exp_ge_add_one_self)
  have upper: "exp t \<le> 1 + t + t\<^sup>2" by (rule exp_bound [OF t0 t1])
  have lt: "4503599636377695 - 1 / 2 < (1 + t) * 2 ^ 52" by (simp add: t_def)
  have ut: "(1 + t + t\<^sup>2) * 2 ^ 52 < 4503599636377695 + 1 / 2"
    by (simp add: t_def power2_eq_square)
  have two: "1 + t + t\<^sup>2 < 2" by (simp add: t_def power2_eq_square)
  have p0: "(2 :: real) powr of_int 0 = 1" by simp
  have p1: "(2 :: real) powr (of_int 0 + 1) = 2" by simp
  have p52: "(2 :: real) powr of_int (0 - 52) = 1 / 2 ^ 52"
    by (simp add: powr_minus_divide powr_realpow [symmetric])
  have big: "(4503599636377695 :: real) / 2 ^ 52 < 2 ^ 1024"
  proof -
    have "(4503599636377695 :: real) / 2 ^ 52 < 2 ^ 1" by simp
    also have "(2 :: real) ^ 1 < 2 ^ 1024" by (rule power_strict_increasing) simp_all
    finally show ?thesis .
  qed
  have "binary64 (exp t) = Inr (of_int 4503599636377695 * 2 powr of_int (0 - 52))"
  proof (rule binary64_round)
    show "2 powr of_int 0 \<le> \<bar>exp t\<bar>" unfolding p0 using lower t0 by simp
    show "\<bar>exp t\<bar> < 2 powr (of_int 0 + 1)" unfolding p1 using upper two by simp
    show "- 1022 \<le> (0 :: int)" by simp
    have "of_int 4503599636377695 - 1 / 2 < (1 + t) * 2 ^ 52" using lt by simp
    also have "\<dots> \<le> exp t * 2 ^ 52" using lower by (simp del: power_numeral)
    finally show "of_int 4503599636377695 - 1 / 2 < exp t / 2 powr of_int (0 - 52)"
      unfolding p52 by (simp del: power_numeral)
    have "exp t * 2 ^ 52 \<le> (1 + t + t\<^sup>2) * 2 ^ 52" using upper by (simp del: power_numeral)
    also have "\<dots> < of_int 4503599636377695 + 1 / 2" using ut by simp
    finally show "exp t / 2 powr of_int (0 - 52) < of_int 4503599636377695 + 1 / 2"
      unfolding p52 by (simp del: power_numeral)
    show "\<bar>of_int 4503599636377695 * (2 :: real) powr of_int (0 - 52)\<bar> < 2 ^ 1024"
      unfolding p52 using big by (simp del: power_numeral)
  qed
  then show ?thesis unfolding p52 t_def by simp
qed


lemma binary64_zero: "binary64 0 = Inr 0"
  by (simp add: binary64_def)

lemma compute_KL_binary64_at_1e9:
  "compute_KL_binary64 (Mat 2 [[0, 4835703278458517 / 2 ^ 82]])
   = Some (Inr [- (136763029 / 2 ^ 82)])"
proof -
  define ls :: real where "ls = 4835703278458517 / 2 ^ 82"
  define t :: real where "t = 4835703278458517 / 2 ^ 81"
  define var :: real where "var = 4503599636377695 / 2 ^ 52"
  define a1 :: real where "a1 = 9007199 / 2 ^ 52"
  define b :: real where "b = - (136763029 / 2 ^ 81)"
  define res :: real where "res = - (136763029 / 2 ^ 82)"
  have r1: "binary64 (ls * 2) = Inr t"
    using binary64_exact [of 4835703278458517 81] by (simp add: ls_def t_def)
  have r2: "binary64 (exp t) = Inr var"
    unfolding t_def var_def by (rule binary64_exp_2e9)
  have r3: "binary64 var = Inr var"
    using binary64_exact [of 4503599636377695 52] by (simp add: var_def)
  have r4: "binary64 (var - 1) = Inr a1"
    using binary64_exact [of 9007199 52] by (simp add: var_def a1_def)
  have r5: "binary64 (2 * ls) = Inr t"
    using r1 by (simp add: mult.commute)
  have r6: "binary64 (a1 - t) = Inr b"
    using binary64_exact [of "- 136763029" 81] by (simp add: a1_def t_def b_def)
  have r7: "binary64 b = Inr b"
    using binary64_exact [of "- 136763029" 81] by (simp add: b_def)
  have r8: "binary64 (b / 2) = Inr res"
    using binary64_exact [of "- 136763029" 82] by (simp add: b_def res_def)
  have "compute_KL_binary64 (Mat 2 [[0, ls]]) = Some (Inr [res])"
    by (simp add: compute_KL_binary64_def cols_to_def cols_from_def mat_map_def mat_op_def
        nrows_def stretch_def round_matrix_def round_vector_def binary64_zero
        r1 r2 r3 r4 r5 r6 r7 r8)
  then show ?thesis unfolding ls_def res_def .
qed

theorem compute_KL_binary64_negative_counterexample:
  "binary64 0 = Inr 0
   \<and> binary64 (1 / 10 ^ 9) = Inr (4835703278458517 / 2 ^ 82)
   \<and> has_shape (Mat 2 [[0, 4835703278458517 / 2 ^ 82]]) 1 (2 * 1)
   \<and> compute_KL_binary64 (Mat 2 [[0, 4835703278458517 / 2 ^ 82]])
       = Some (Inr [- (136763029 / 2 ^ 82)])
   \<and> \<not> 0 \<le> [- (136763029 / 2 ^ 82) :: real] ! 0"
proof -
  have s: "has_shape (Mat 2 [[0, 4835703278458517 / 2 ^ 82]]) 1 (2 * 1)"
    by (simp add: has_shape_def nrows_def wf_matrix_def)
  have n: "\<not> 0 \<le> [- (136763029 / 2 ^ 82) :: real] ! 0" by simp
  show ?thesis
    using binary64_zero binary64_1e9 s compute_KL_binary64_at_1e9 n by blast
qed

text \<open>
  Claim C4, amended.  Over exact real arithmetic, for a batch of posterior means and log
  standard deviations of any number of rows and any even width \<open>2 * L\<close>, \<open>compute_KL\<close>
  returns one number per row and each is non-negative; elementwise,
  \<open>exp (2 * log_std) + mean\<^sup>2 - 1 - 2 * log_std\<close> is non-negative.
\<close>

theorem compute_KL_nonnegative:
  assumes q: "has_shape q N (2 * L)"
  shows "(\<exists>kl. compute_KL q = Inr kl \<and> length kl = N \<and> (\<forall>i<N. 0 \<le> kl ! i))
       \<and> (\<forall>i<N. \<forall>j<L. 0 \<le> exp (entry q i (L + j) * 2) + (entry q i j) ^ 2 - 1
                               - 2 * entry q i (L + j))"
proof -
  from compute_KL_value [OF q] obtain kl where
    kl: "compute_KL q = Inr kl" "length kl = N"
    and v: "\<forall>i<N. kl ! i = 0.5 * (\<Sum>j<L. exp (entry q i (L + j) * 2) + (entry q i j) ^ 2 - 1
                                          - 2 * entry q i (L + j))"
    by blast
  have "0 \<le> kl ! i" if "i < N" for i
  proof -
    have "0 \<le> (\<Sum>j<L. exp (entry q i (L + j) * 2) + (entry q i j) ^ 2 - 1 - 2 * entry q i (L + j))"
      by (rule sum_nonneg) (rule kl_term_nonneg)
    moreover have "kl ! i = 0.5 * (\<Sum>j<L. exp (entry q i (L + j) * 2) + (entry q i j) ^ 2 - 1
                                     - 2 * entry q i (L + j))"
      using v that by blast
    ultimately show ?thesis by simp
  qed
  then show ?thesis using kl kl_term_nonneg by blast
qed

theorem compute_KL_nonnegative_witness:
  "has_shape (Mat 2 [[3, 0], [0, 0]]) 2 (2 * 1)
   \<and> (\<exists>kl. compute_KL (Mat 2 [[3, 0], [0, 0]]) = Inr kl \<and> length kl = 2
            \<and> 0 \<le> kl ! 0 \<and> 0 \<le> kl ! 1)"
proof -
  have q: "has_shape (Mat 2 [[3, 0], [0, 0]]) 2 (2 * 1)"
    by (simp add: has_shape_def nrows_def wf_matrix_def)
  show ?thesis
    using compute_KL_nonnegative [OF q] q by auto
qed

section \<open>The network evaluator\<close>

lemma length_stretch [simp]: "length (stretch c xs) = c"
  by (simp add: stretch_def)

lemma broadcast_dim_one [simp]: "broadcast_dim a 1 = Inr a"
  by (simp add: broadcast_dim_def)

lemma broadcast_dim_one' [simp]: "broadcast_dim a (Suc 0) = Inr a"
  by (simp add: broadcast_dim_def)

lemma broadcast_dim_error: "broadcast_dim a b = Inl e \<Longrightarrow> e = ValueError"
  by (simp add: broadcast_dim_def split: if_splits)

lemma mat_op_result_shape:
  assumes "mat_op f A B = Inr R"
  shows "\<exists>c r. broadcast_dim (ncols A) (ncols B) = Inr c
             \<and> broadcast_dim (nrows A) (nrows B) = Inr r \<and> has_shape R r c"
proof -
  obtain c where c: "broadcast_dim (ncols A) (ncols B) = Inr c"
    using assms by (cases "broadcast_dim (ncols A) (ncols B)") (simp_all add: mat_op_def)
  obtain r where r: "broadcast_dim (nrows A) (nrows B) = Inr r"
    using assms c by (cases "broadcast_dim (nrows A) (nrows B)") (simp_all add: mat_op_def)
  have R: "R = Mat c (map2 (\<lambda>a b. map2 f (stretch c a) (stretch c b))
                        (stretch r (rows A)) (stretch r (rows B)))"
    using assms c r by (simp add: mat_op_def)
  have "has_shape R r c"
    unfolding R by (rule has_shapeI) simp_all
  then show ?thesis using c r by blast
qed

lemma mat_op_error: "mat_op f A B = Inl e \<Longrightarrow> e = ValueError"
  by (cases "broadcast_dim (ncols A) (ncols B)"; cases "broadcast_dim (nrows A) (nrows B)")
     (auto simp: mat_op_def dest: broadcast_dim_error)

lemma np_dot_shape:
  "np_dot X W = Inr D \<Longrightarrow> has_shape D (nrows X) (ncols W)"
  by (auto simp: np_dot_def has_shape_def nrows_def wf_matrix_def list_all_iff vec_mat_def
      split: if_splits)

lemma np_dot_error: "np_dot X W = Inl e \<Longrightarrow> e = ValueError"
  by (simp add: np_dot_def split: if_splits)

lemma affine_result_shape:
  assumes "affine l X = Inr Y"
  shows "\<exists>c. broadcast_dim (ncols (fst l)) (length (snd l)) = Inr c \<and> has_shape Y (nrows X) c"
proof -
  obtain D where D: "np_dot X (fst l) = Inr D" and Y: "mat_vec_op (+) D (snd l) = Inr Y"
    using assms by (cases "np_dot X (fst l)") (simp_all add: affine_def)
  have Ds: "has_shape D (nrows X) (ncols (fst l))" by (rule np_dot_shape [OF D])
  from mat_op_result_shape [OF Y [unfolded mat_vec_op_def]] obtain c r where
    "broadcast_dim (ncols D) (length (snd l)) = Inr c"
    "broadcast_dim (nrows D) (nrows (Mat (length (snd l)) [snd l])) = Inr r"
    "has_shape Y r c" by auto
  then show ?thesis using Ds by (simp add: has_shape_def nrows_def)
qed

lemma affine_error: "affine l X = Inl e \<Longrightarrow> e = ValueError"
  by (cases "np_dot X (fst l)")
     (auto simp: affine_def mat_vec_op_def dest: np_dot_error mat_op_error)

lemma hidden_layers_Cons:
  "hidden_layers (l # ps) X = and_then (affine l X) (\<lambda>Y. hidden_layers ps (mat_map relu Y))"
  by (cases l) (simp add: affine_def and_then_def split: sum.splits)

lemma neural_net_predict_single: "neural_net_predict [l] X = affine l X"
  by (cases l) (simp add: neural_net_predict_def affine_def)

lemma neural_net_predict_Cons:
  "neural_net_predict (l # l' # ls) X
     = and_then (affine l X) (\<lambda>Y. neural_net_predict (l' # ls) (mat_map relu Y))"
  by (cases "affine l X") (simp_all add: neural_net_predict_def hidden_layers_Cons)

lemma neural_net_predict_forward_spec:
  "params \<noteq> [] \<Longrightarrow> neural_net_predict params X = forward_spec params X"
proof (induction params X rule: forward_spec.induct)
  case (1 l X)
  show ?case by (simp add: neural_net_predict_single)
next
  case (2 l l' ls X)
  show ?case
    by (cases "affine l X") (simp_all add: neural_net_predict_Cons 2)
next
  case (3 X)
  then show ?case by simp
qed

lemma neural_net_predict_empty: "neural_net_predict [] X = Inl IndexError"
  by (simp add: neural_net_predict_def)

lemma neural_net_predict_error:
  "params \<noteq> [] \<Longrightarrow> neural_net_predict params X = Inl e \<Longrightarrow> e = ValueError"
proof (induction params X rule: forward_spec.induct)
  case (1 l X)
  then show ?case using affine_error [of l X e] by (simp add: neural_net_predict_single)
next
  case (2 l l' ls X)
  show ?case
  proof (cases "affine l X")
    case (Inl e')
    then show ?thesis using 2(3) affine_error [of l X e'] by (simp add: neural_net_predict_Cons)
  next
    case (Inr Y)
    then show ?thesis using 2(1) [of Y] 2(3) by (simp add: neural_net_predict_Cons)
  qed
next
  case (3 X)
  then show ?case by simp
qed

lemma mat_map_nrows [simp]: "nrows (mat_map g A) = nrows A"
  by (simp add: nrows_def mat_map_def)

lemma neural_net_predict_result_shape:
  "params \<noteq> [] \<Longrightarrow> neural_net_predict params X = Inr out
   \<Longrightarrow> \<exists>c. broadcast_dim (ncols (fst (last params))) (length (snd (last params))) = Inr c
          \<and> has_shape out (nrows X) c"
proof (induction params X rule: forward_spec.induct)
  case (1 l X)
  then show ?case using affine_result_shape [of l X out] by (simp add: neural_net_predict_single)
next
  case (2 l l' ls X)
  from 2(3) obtain Y where Y: "affine l X = Inr Y"
    and out: "neural_net_predict (l' # ls) (mat_map relu Y) = Inr out"
    by (cases "affine l X") (simp_all add: neural_net_predict_Cons)
  have "nrows Y = nrows X" using affine_result_shape [OF Y] by (auto simp: has_shape_def)
  then show ?case using 2(1) [OF _ out] by simp
next
  case (3 X)
  then show ?case by simp
qed


lemma map2_replicate_right:
  "map2 g xs (replicate (length xs) b) = map (\<lambda>a. g a b) xs"
  by (induction xs) simp_all

lemma mat_vec_op_rows:
  assumes D: "has_shape D N k" and b: "length b = k"
  shows "mat_vec_op f D b = Inr (Mat k (map (\<lambda>a. map2 f a b) (rows D)))"
proof -
  have len: "length (rows D) = N" by (rule has_shape_length [OF D])
  have st: "stretch N [b] = replicate N b"
    by (cases "N = 1") (simp_all add: stretch_def)
  have "map2 (\<lambda>a b'. map2 f (stretch k a) (stretch k b')) (rows D) (replicate N b)
        = map (\<lambda>a. map2 f (stretch k a) (stretch k b)) (rows D)"
    using map2_replicate_right [of _ "rows D" b] len by simp
  also have "\<dots> = map (\<lambda>a. map2 f a b) (rows D)"
  proof (rule map_cong [OF refl])
    fix a assume "a \<in> set (rows D)"
    then have "length a = k" using D by (auto simp: has_shape_def wf_matrix_def list_all_iff)
    then show "map2 f (stretch k a) (stretch k b) = map2 f a b"
      using b by (simp add: stretch_def)
  qed
  finally show ?thesis
    using D b len st
    by (simp add: mat_vec_op_def mat_op_def has_shape_def nrows_def stretch_def [of N "rows D"])
qed

lemma length_vec_mat [simp]: "length (vec_mat x W) = ncols W"
  by (simp add: vec_mat_def)

lemma vec_op_same_length:
  "length u = length v \<Longrightarrow> vec_op f u v = Inr (map2 f u v)"
  by (simp add: vec_op_def stretch_def)

lemma affine_value:
  assumes X: "has_shape X N d" and W: "has_shape W d k" and b: "length b = k"
  shows "affine (W, b) X = Inr (Mat k (map (\<lambda>x. map2 (+) (vec_mat x W) b) (rows X)))"
proof -
  have dot: "np_dot X W = Inr (Mat k (map (\<lambda>x. vec_mat x W) (rows X)))"
    using X W by (simp add: np_dot_def has_shape_def)
  have "has_shape (Mat k (map (\<lambda>x. vec_mat x W) (rows X))) N k"
    using W by (intro has_shapeI) (simp_all add: has_shape_length [OF X] has_shape_def)
  from mat_vec_op_rows [OF this b, of "(+)"] show ?thesis
    by (simp add: affine_def dot comp_def)
qed

lemma affine_1d_value:
  assumes x: "length x = d" and W: "has_shape W d k" and b: "length b = k"
  shows "affine_1d (W, b) x = Inr (map2 (+) (vec_mat x W) b)"
  using assms by (simp add: affine_1d_def np_dot_1d_def has_shape_def vec_op_same_length)

lemma vec_mat_nth:
  assumes x: "length x = d" and W: "has_shape W d k" and j: "j < k"
  shows "vec_mat x W ! j = (\<Sum>i<d. x ! i * entry W i j)"
proof -
  have len: "length (rows W) = d" by (rule has_shape_length [OF W])
  have "vec_mat x W ! j = sum_list (map2 (\<lambda>xi wi. xi * wi ! j) x (rows W))"
    using W j by (simp add: vec_mat_def has_shape_def)
  also have "\<dots> = (\<Sum>i<d. x ! i * entry W i j)"
    using x len by (simp add: sum_list_sum_nth atLeast0LessThan entry_def)
  finally show ?thesis .
qed

lemma hidden_layers_1d_Cons:
  "hidden_layers_1d (l # ps) x
     = and_then (affine_1d l x) (\<lambda>y. hidden_layers_1d ps (map relu y))"
  by (cases l) (simp add: affine_1d_def and_then_def split: sum.splits)

lemma neural_net_predict_1d_single: "neural_net_predict_1d [l] x = affine_1d l x"
  by (cases l) (simp add: neural_net_predict_1d_def affine_1d_def)

lemma neural_net_predict_1d_Cons:
  "neural_net_predict_1d (l # l' # ls) x
     = and_then (affine_1d l x) (\<lambda>y. neural_net_predict_1d (l' # ls) (map relu y))"
  by (cases "affine_1d l x") (simp_all add: neural_net_predict_1d_def hidden_layers_1d_Cons)

lemma neural_net_predict_rows:
  "params \<noteq> [] \<Longrightarrow> layers_conform params d n \<Longrightarrow> has_shape X N d
   \<Longrightarrow> \<exists>out. neural_net_predict params X = Inr out \<and> has_shape out N n
          \<and> (\<forall>i<N. neural_net_predict_1d params (rows X ! i) = Inr (rows out ! i))"
proof (induction params X arbitrary: d rule: forward_spec.induct)
  case (1 l X)
  obtain W b where l: "l = (W, b)" by (cases l)
  have W: "has_shape W d n" and b: "length b = n" using 1(2) l by auto
  let ?out = "Mat n (map (\<lambda>x. map2 (+) (vec_mat x W) b) (rows X))"
  have v: "affine (W, b) X = Inr ?out" by (rule affine_value [OF 1(3) W b])
  have len: "length (rows X) = N" by (rule has_shape_length [OF 1(3)])
  have nW: "ncols W = n" using W by (simp add: has_shape_def)
  have "has_shape ?out N n" by (rule has_shapeI) (simp_all add: len b nW)
  moreover have "neural_net_predict_1d [l] (rows X ! i) = Inr (rows ?out ! i)" if "i < N" for i
    using that affine_1d_value [OF has_shape_row [OF 1(3) that] W b]
    by (simp add: neural_net_predict_1d_single l len)
  ultimately show ?case using v by (simp add: neural_net_predict_single l)
next
  case (2 l l' ls X)
  obtain W b where l: "l = (W, b)" by (cases l)
  have W: "has_shape W d (length b)" and rest: "layers_conform (l' # ls) (length b) n"
    using 2(3) l by auto
  let ?Y = "Mat (length b) (map (\<lambda>x. map2 (+) (vec_mat x W) b) (rows X))"
  have v: "affine l X = Inr ?Y" unfolding l by (rule affine_value [OF 2(4) W refl])
  have len: "length (rows X) = N" by (rule has_shape_length [OF 2(4)])
  have nW: "ncols W = length b" using W by (simp add: has_shape_def)
  have Y: "has_shape ?Y N (length b)" by (rule has_shapeI) (simp_all add: len nW)
  have RY: "has_shape (mat_map relu ?Y) N (length b)" by (rule mat_map_shape [OF Y])
  from 2(1) [OF _ rest RY] obtain out where
    out: "neural_net_predict (l' # ls) (mat_map relu ?Y) = Inr out" "has_shape out N n"
    and r: "\<forall>i<N. neural_net_predict_1d (l' # ls) (rows (mat_map relu ?Y) ! i) = Inr (rows out ! i)"
    by auto
  have "neural_net_predict_1d (l # l' # ls) (rows X ! i) = Inr (rows out ! i)" if "i < N" for i
  proof -
    define y where "y = map2 (+) (vec_mat (rows X ! i) W) b"
    have a: "affine_1d l (rows X ! i) = Inr y"
      unfolding l y_def by (rule affine_1d_value [OF has_shape_row [OF 2(4) that] W refl])
    have b: "rows (mat_map relu ?Y) ! i = map relu y"
      using that len by (simp add: mat_map_def y_def)
    have "neural_net_predict_1d (l' # ls) (rows (mat_map relu ?Y) ! i) = Inr (rows out ! i)"
      using r that by blast
    then have "neural_net_predict_1d (l' # ls) (map relu y) = Inr (rows out ! i)"
      unfolding b .
    then show ?thesis by (simp add: neural_net_predict_1d_Cons a)
  qed
  then show ?case using out v by (simp add: neural_net_predict_Cons)
next
  case (3 X)
  then show ?case by simp
qed

lemma layers_conform_last:
  "params \<noteq> [] \<Longrightarrow> layers_conform params d n
   \<Longrightarrow> ncols (fst (last params)) = n \<and> length (snd (last params)) = n"
proof (induction params arbitrary: d)
  case Nil
  then show ?case by simp
next
  case (Cons l ps)
  obtain W b where l: "l = (W, b)" by (cases l)
  show ?case
  proof (cases "ps = []")
    case True
    then show ?thesis using Cons(3) l by (simp add: has_shape_def)
  next
    case False
    then show ?thesis using Cons l by auto
  qed
qed

text \<open>
  Claim C6.  For a non-empty parameter list, \<open>neural_net_predict\<close> applies an affine
  transform followed by the rectifier for every layer except the last and the last layer
  affine only.  With the shapes of the data model and an input batch of \<open>N\<close> rows it
  returns a matrix of shape \<open>N\<close> by the output dimension of the last layer.  For a list
  of exactly one weight and bias pair it returns the inputs times the weights plus the
  bias, with no nonlinearity.
\<close>

theorem neural_net_predict_layers:
  "(params \<noteq> [] \<longrightarrow> neural_net_predict params inputs = forward_spec params inputs)
   \<and> (params \<noteq> [] \<and> layers_conform params d n \<and> has_shape inputs N d \<longrightarrow>
        (\<exists>out. neural_net_predict params inputs = Inr out \<and> has_shape out N n
               \<and> n = ncols (fst (last params))))
   \<and> (params \<noteq> [] \<and> neural_net_predict params inputs = Inr out'
        \<and> length (snd (last params)) = ncols (fst (last params)) \<longrightarrow>
        has_shape out' (nrows inputs) (ncols (fst (last params))))
   \<and> neural_net_predict [(W, b)] inputs = and_then (np_dot inputs W) (\<lambda>D. mat_vec_op (+) D b)
   \<and> (has_shape inputs N d \<and> has_shape W d n \<and> length b = n \<longrightarrow>
        (\<exists>out. neural_net_predict [(W, b)] inputs = Inr out \<and> has_shape out N n
               \<and> (\<forall>i<N. \<forall>j<n. entry out i j = (\<Sum>k<d. entry inputs i k * entry W k j) + b ! j)))"
proof (intro conjI impI)
  assume "params \<noteq> []"
  then show "neural_net_predict params inputs = forward_spec params inputs"
    by (rule neural_net_predict_forward_spec)
next
  assume a: "params \<noteq> [] \<and> layers_conform params d n \<and> has_shape inputs N d"
  then obtain out where "neural_net_predict params inputs = Inr out" "has_shape out N n"
    using neural_net_predict_rows [of params d n inputs N] by blast
  moreover have "n = ncols (fst (last params))"
    using layers_conform_last [of params d n] a by simp
  ultimately show "\<exists>out. neural_net_predict params inputs = Inr out \<and> has_shape out N n
      \<and> n = ncols (fst (last params))" by blast
next
  assume a: "params \<noteq> [] \<and> neural_net_predict params inputs = Inr out'
        \<and> length (snd (last params)) = ncols (fst (last params))"
  then show "has_shape out' (nrows inputs) (ncols (fst (last params)))"
    using neural_net_predict_result_shape [of params inputs out'] by auto
next
  show "neural_net_predict [(W, b)] inputs = and_then (np_dot inputs W) (\<lambda>D. mat_vec_op (+) D b)"
    by (simp add: neural_net_predict_single affine_def)
next
  assume a: "has_shape inputs N d \<and> has_shape W d n \<and> length b = n"
  then have X: "has_shape inputs N d" and W: "has_shape W d n" and b: "length b = n"
    by simp_all
  let ?out = "Mat n (map (\<lambda>x. map2 (+) (vec_mat x W) b) (rows inputs))"
  have v: "neural_net_predict [(W, b)] inputs = Inr ?out"
    using affine_value [OF X W b] by (simp add: neural_net_predict_single)
  have len: "length (rows inputs) = N" by (rule has_shape_length [OF X])
  have nW: "ncols W = n" using W by (simp add: has_shape_def)
  have s: "has_shape ?out N n" by (rule has_shapeI) (simp_all add: len b nW)
  have "entry ?out i j = (\<Sum>k<d. entry inputs i k * entry W k j) + b ! j"
    if i: "i < N" and j: "j < n" for i j
    using i j vec_mat_nth [OF has_shape_row [OF X i] W j]
    by (simp add: entry_def len b nW)
  then show "\<exists>out. neural_net_predict [(W, b)] inputs = Inr out \<and> has_shape out N n
      \<and> (\<forall>i<N. \<forall>j<n. entry out i j = (\<Sum>k<d. entry inputs i k * entry W k j) + b ! j)"
    using v s by blast
qed

lemma example_net_conforms:
  "layers_conform [(Mat 2 [[1, 0], [0, 1]], [1, - 5]), (Mat 1 [[1], [1]], [0])] 2 1"
  by (simp add: has_shape_def nrows_def wf_matrix_def)

lemma example_input_shape: "has_shape (Mat 2 [[1, 2]]) 1 2"
  by (simp add: has_shape_def nrows_def wf_matrix_def)

lemma example_net_value:
  "neural_net_predict [(Mat 2 [[1, 0], [0, 1]], [1, - 5]), (Mat 1 [[1], [1]], [0])] (Mat 2 [[1, 2]])
   = Inr (Mat 1 [[2]])"
  by (simp add: neural_net_predict_def np_dot_def nrows_def mat_vec_op_def mat_op_def
      broadcast_dim_def vec_mat_def stretch_def mat_map_def relu_def upt_rec)

theorem neural_net_predict_layers_witness:
  "layers_conform [(Mat 2 [[1, 0], [0, 1]], [1, - 5]), (Mat 1 [[1], [1]], [0])] 2 1
   \<and> has_shape (Mat 2 [[1, 2]]) 1 2
   \<and> neural_net_predict [(Mat 2 [[1, 0], [0, 1]], [1, - 5]), (Mat 1 [[1], [1]], [0])] (Mat 2 [[1, 2]])
       = forward_spec [(Mat 2 [[1, 0], [0, 1]], [1, - 5]), (Mat 1 [[1], [1]], [0])] (Mat 2 [[1, 2]])
   \<and> forward_spec [(Mat 2 [[1, 0], [0, 1]], [1, - 5]), (Mat 1 [[1], [1]], [0])] (Mat 2 [[1, 2]])
       = Inr (Mat 1 [[2]])
   \<and> has_shape (Mat 1 [[2]]) 1 1"
  using neural_net_predict_layers
    [of "[(Mat 2 [[1, 0], [0, 1]], [1, - 5]), (Mat 1 [[1], [1]], [0])]" "Mat 2 [[1, 2]]" 2 1 1
        "Mat 1 [[2]]"]
    example_net_conforms example_input_shape example_net_value
  by (simp add: has_shape_def nrows_def wf_matrix_def)

text \<open>
  Claim C10.  \<open>neural_net_predict\<close> needs a non-empty parameter list: on the empty list
  the access to the last pair is out of range and the call raises \<open>IndexError\<close>; on a
  non-empty list that access never fails (the only error left is a mismatch of shapes),
  and with the shapes of the data model the result is defined.
\<close>

theorem neural_net_predict_requires_nonempty:
  "neural_net_predict [] inputs = Inl IndexError
   \<and> (params \<noteq> [] \<longrightarrow> neural_net_predict params inputs \<noteq> Inl IndexError)
   \<and> (params \<noteq> [] \<and> neural_net_predict params inputs = Inl e \<longrightarrow> e = ValueError)
   \<and> (params \<noteq> [] \<and> layers_conform params d n \<and> has_shape inputs N d \<longrightarrow>
        (\<exists>out. neural_net_predict params inputs = Inr out))"
proof (intro conjI impI)
  show "neural_net_predict [] inputs = Inl IndexError" by (rule neural_net_predict_empty)
next
  assume "params \<noteq> []"
  then show "neural_net_predict params inputs \<noteq> Inl IndexError"
    using neural_net_predict_error [of params inputs IndexError] by auto
next
  assume "params \<noteq> [] \<and> neural_net_predict params inputs = Inl e"
  then show "e = ValueError"
    using neural_net_predict_error by blast
next
  assume "params \<noteq> [] \<and> layers_conform params d n \<and> has_shape inputs N d"
  then show "\<exists>out. neural_net_predict params inputs = Inr out"
    using neural_net_predict_rows [of params d n inputs N] by blast
qed

theorem neural_net_predict_requires_nonempty_witness:
  "neural_net_predict [] (Mat 2 [[1, 2]]) = Inl IndexError
   \<and> [(Mat 2 [[1, 0], [0, 1]], [1, 1])] \<noteq> []
   \<and> layers_conform [(Mat 2 [[1, 0], [0, 1]], [1, 1])] 2 2
   \<and> has_shape (Mat 2 [[1, 2]]) 1 2
   \<and> neural_net_predict [(Mat 2 [[1, 0], [0, 1]], [1, 1])] (Mat 2 [[1, 2]]) \<noteq> Inl IndexError
   \<and> (\<exists>out. neural_net_predict [(Mat 2 [[1, 0], [0, 1]], [1, 1])] (Mat 2 [[1, 2]]) = Inr out)"
proof -
  have c: "layers_conform [(Mat 2 [[1, 0], [0, 1]], [1, 1])] 2 2"
    by (simp add: has_shape_def nrows_def wf_matrix_def)
  show ?thesis
    using neural_net_predict_requires_nonempty
      [where inputs = "Mat 2 [[1, 2]]" and params = "[(Mat 2 [[1, 0], [0, 1]], [1, 1])]"
         and d = 2 and n = 2 and N = 1]
      c example_input_shape
    by simp
qed

section \<open>The lower bound\<close>

lemma draw_shape: "has_shape (draw eps N D) N D"
  by (rule has_shapeI) (simp_all add: draw_def)

lemma entry_draw: "i < N \<Longrightarrow> j < D \<Longrightarrow> entry (draw eps N D) i j = eps i j"
  by (simp add: entry_def draw_def)

lemma sample_latent_value:
  assumes enc: "has_shape enc N (2 * L)"
  shows "\<exists>z. sample_latent_variables_from_posterior enc eps = Inr z \<and> has_shape z N L
           \<and> (\<forall>i<N. \<forall>j<L. entry z i j = entry enc i j + exp (entry enc i (L + j)) * eps i j)"
proof -
  let ?mean = "cols_to L enc"
  let ?ls = "cols_from L enc"
  have D: "ncols enc div 2 = L" using enc by (simp add: has_shape_def)
  have mean: "has_shape ?mean N L" by (rule cols_to_shape [OF enc]) simp
  have ls: "has_shape ?ls N L" using cols_from_shape [OF enc, of L] by simp
  have els: "has_shape (mat_map exp ?ls) N L" by (rule mat_map_shape [OF ls])
  have dr: "draw eps (nrows ?mean) (ncols ?mean) = draw eps N L"
    using mean by (simp add: has_shape_def)
  obtain noise where noise: "mat_op (*) (mat_map exp ?ls) (draw eps N L) = Inr noise"
      "has_shape noise N L"
    and en: "\<forall>i<N. \<forall>j<L. entry noise i j = entry (mat_map exp ?ls) i j * entry (draw eps N L) i j"
    using mat_op_shape [OF els draw_shape] by blast
  obtain z where z: "mat_op (+) ?mean noise = Inr z" "has_shape z N L"
    and ez: "\<forall>i<N. \<forall>j<L. entry z i j = entry ?mean i j + entry noise i j"
    using mat_op_shape [OF mean noise(2)] by blast
  have "entry z i j = entry enc i j + exp (entry enc i (L + j)) * eps i j"
    if "i < N" "j < L" for i j
    using that ez en
    by (simp add: entry_mat_map [OF ls] entry_cols_to [OF enc] entry_cols_from [OF enc]
        entry_draw)
  moreover have "sample_latent_variables_from_posterior enc eps = Inr z"
    unfolding sample_latent_variables_from_posterior_def Let_def D dr
    by (simp add: noise(1) z(1))
  ultimately show ?thesis using z(2) by blast
qed

lemma sum_list_map2_minus:
  "length xs = length ys \<Longrightarrow> sum_list (map2 (-) xs ys) = (\<Sum>i<length xs. xs ! i - (ys ! i :: real))"
  by (simp add: sum_list_sum_nth atLeast0LessThan)

lemma vae_lower_bound_from_parts:
  assumes "neural_net_predict rec_params data = Inr enc"
    and "sample_latent_variables_from_posterior enc eps = Inr z"
    and "neural_net_predict gen_params z = Inr dec"
    and "bernoulli_log_prob data dec = Inr lp"
    and "compute_KL enc = Inr kl"
    and "length lp = length kl" and "lp \<noteq> []"
  shows "vae_lower_bound gen_params rec_params data eps
         = Inr ((\<Sum>i<length lp. lp ! i - kl ! i) / real (length lp))"
proof -
  have d: "vec_op (-) lp kl = Inr (map2 (-) lp kl)"
    by (rule vec_op_same_length [OF assms(6)])
  have ne: "map2 (-) lp kl \<noteq> []" using assms(6,7) by (cases lp; cases kl) simp_all
  have "np_mean (map2 (-) lp kl) = Inr ((\<Sum>i<length lp. lp ! i - kl ! i) / real (length lp))"
    using ne assms(6) by (simp add: np_mean_def sum_list_map2_minus)
  then show ?thesis
    by (simp add: vae_lower_bound_def assms(1-5) d)
qed


text \<open>
  Claim C3.  \<open>vae_lower_bound\<close> is the mean over the rows of the batch of the
  log-likelihood of the data under the decoder output minus the divergence of the
  encoder output, where the encoder output is the recognition network on the data, the
  latent sample is drawn from it, and the decoder output is the generator network on
  the sample.  Whenever these parts return values the result is their mean; with the
  shapes of the data model and a non-empty batch of pixels between 0 and 1 they do.
\<close>

theorem vae_lower_bound_is_mean:
  "(neural_net_predict rec_params data = Inr encoder_output
      \<and> sample_latent_variables_from_posterior encoder_output eps = Inr z
      \<and> neural_net_predict gen_params z = Inr decoder_output
      \<and> bernoulli_log_prob data decoder_output = Inr log_prob
      \<and> compute_KL encoder_output = Inr divergence
      \<and> length log_prob = length divergence \<and> log_prob \<noteq> []
    \<longrightarrow> vae_lower_bound gen_params rec_params data eps
          = Inr ((\<Sum>i<length log_prob. log_prob ! i - divergence ! i) / real (length log_prob)))
   \<and> (rec_params \<noteq> [] \<and> layers_conform rec_params d (2 * L)
      \<and> gen_params \<noteq> [] \<and> layers_conform gen_params L d
      \<and> has_shape data N d \<and> 0 < N
      \<and> (\<forall>i<N. \<forall>j<d. 0 \<le> entry data i j \<and> entry data i j \<le> 1)
    \<longrightarrow> (\<exists>enc lat dec lp kl.
           neural_net_predict rec_params data = Inr enc
         \<and> sample_latent_variables_from_posterior enc eps = Inr lat
         \<and> neural_net_predict gen_params lat = Inr dec
         \<and> bernoulli_log_prob data dec = Inr lp
         \<and> compute_KL enc = Inr kl
         \<and> length lp = N \<and> length kl = N
         \<and> vae_lower_bound gen_params rec_params data eps
             = Inr ((\<Sum>i<N. lp ! i - kl ! i) / real N)))"
proof (intro conjI impI)
  assume "neural_net_predict rec_params data = Inr encoder_output
      \<and> sample_latent_variables_from_posterior encoder_output eps = Inr z
      \<and> neural_net_predict gen_params z = Inr decoder_output
      \<and> bernoulli_log_prob data decoder_output = Inr log_prob
      \<and> compute_KL encoder_output = Inr divergence
      \<and> length log_prob = length divergence \<and> log_prob \<noteq> []"
  then show "vae_lower_bound gen_params rec_params data eps
          = Inr ((\<Sum>i<length log_prob. log_prob ! i - divergence ! i) / real (length log_prob))"
    using vae_lower_bound_from_parts by blast
next
  assume a: "rec_params \<noteq> [] \<and> layers_conform rec_params d (2 * L)
      \<and> gen_params \<noteq> [] \<and> layers_conform gen_params L d
      \<and> has_shape data N d \<and> 0 < N
      \<and> (\<forall>i<N. \<forall>j<d. 0 \<le> entry data i j \<and> entry data i j \<le> 1)"
  then have rec: "rec_params \<noteq> []" "layers_conform rec_params d (2 * L)"
    and gen: "gen_params \<noteq> []" "layers_conform gen_params L d"
    and data: "has_shape data N d" "0 < N"
    and range: "\<forall>i<N. \<forall>j<d. 0 \<le> entry data i j \<and> entry data i j \<le> 1"
    by simp_all
  obtain enc where enc: "neural_net_predict rec_params data = Inr enc" "has_shape enc N (2 * L)"
    using neural_net_predict_rows [OF rec data(1)] by blast
  obtain lat where lat: "sample_latent_variables_from_posterior enc eps = Inr lat"
      "has_shape lat N L"
    using sample_latent_value [OF enc(2)] by blast
  obtain dec where dec: "neural_net_predict gen_params lat = Inr dec" "has_shape dec N d"
    using neural_net_predict_rows [OF gen lat(2)] by blast
  have pos: "0 < entry data i j * sigmoid (entry dec i j)
                 + (1 - entry data i j) * (1 - sigmoid (entry dec i j))"
    if "i < N" "j < d" for i j
    using range that bernoulli_argument_pos by blast
  obtain lp where lp: "bernoulli_log_prob data dec = Inr lp" "length lp = N"
    using bernoulli_log_prob_value [OF data(1) dec(2) pos] by blast
  obtain kl where kl: "compute_KL enc = Inr kl" "length kl = N"
    using compute_KL_value [OF enc(2)] by blast
  have "lp \<noteq> []" using lp(2) data(2) by auto
  from vae_lower_bound_from_parts [OF enc(1) lat(1) dec(1) lp(1) kl(1) _ this]
  have "vae_lower_bound gen_params rec_params data eps
          = Inr ((\<Sum>i<N. lp ! i - kl ! i) / real N)"
    using lp(2) kl(2) by simp
  then show "\<exists>enc lat dec lp kl.
           neural_net_predict rec_params data = Inr enc
         \<and> sample_latent_variables_from_posterior enc eps = Inr lat
         \<and> neural_net_predict gen_params lat = Inr dec
         \<and> bernoulli_log_prob data dec = Inr lp
         \<and> compute_KL enc = Inr kl
         \<and> length lp = N \<and> length kl = N
         \<and> vae_lower_bound gen_params rec_params data eps
             = Inr ((\<Sum>i<N. lp ! i - kl ! i) / real N)"
    using enc(1) lat(1) dec(1) lp kl by blast
qed

lemma example_rec_value:
  "neural_net_predict [(Mat 2 [[0, 0]], [0, 0])] (Mat 1 [[1]]) = Inr (Mat 2 [[0, 0]])"
  by (simp add: neural_net_predict_def np_dot_def nrows_def mat_vec_op_def mat_op_def
      broadcast_dim_def vec_mat_def stretch_def upt_rec)

lemma example_sample_value:
  "sample_latent_variables_from_posterior (Mat 2 [[0, 0]]) (\<lambda>i j. 0) = Inr (Mat 1 [[0]])"
  by (simp add: sample_latent_variables_from_posterior_def cols_to_def cols_from_def
      mat_map_def draw_def nrows_def mat_op_def stretch_def)

lemma example_gen_value:
  "neural_net_predict [(Mat 1 [[0]], [0])] (Mat 1 [[0]]) = Inr (Mat 1 [[0]])"
  by (simp add: neural_net_predict_def np_dot_def nrows_def mat_vec_op_def mat_op_def
      broadcast_dim_def vec_mat_def stretch_def)

lemma example_log_prob_value:
  "bernoulli_log_prob (Mat 1 [[1]]) (Mat 1 [[0]]) = Inr [ln (1 / 2)]"
  by (simp add: bernoulli_log_prob_def mat_map_def mat_op_def nrows_def np_log_def
      sum_axis1_def sigmoid_def stretch_def)

lemma example_KL_value: "compute_KL (Mat 2 [[0, 0]]) = Inr [0]"
  by (simp add: compute_KL_def cols_to_def cols_from_def mat_map_def mat_op_def nrows_def
      stretch_def sum_axis1_def)

theorem vae_lower_bound_is_mean_witness:
  "neural_net_predict [(Mat 2 [[0, 0]], [0, 0])] (Mat 1 [[1]]) = Inr (Mat 2 [[0, 0]])
   \<and> sample_latent_variables_from_posterior (Mat 2 [[0, 0]]) (\<lambda>i j. 0) = Inr (Mat 1 [[0]])
   \<and> neural_net_predict [(Mat 1 [[0]], [0])] (Mat 1 [[0]]) = Inr (Mat 1 [[0]])
   \<and> bernoulli_log_prob (Mat 1 [[1]]) (Mat 1 [[0]]) = Inr [ln (1 / 2)]
   \<and> compute_KL (Mat 2 [[0, 0]]) = Inr [0]
   \<and> layers_conform [(Mat 2 [[0, 0]], [0, 0])] 1 (2 * 1)
   \<and> layers_conform [(Mat 1 [[0]], [0])] 1 1
   \<and> has_shape (Mat 1 [[1]]) 1 1
   \<and> vae_lower_bound [(Mat 1 [[0]], [0])] [(Mat 2 [[0, 0]], [0, 0])] (Mat 1 [[1]]) (\<lambda>i j. 0)
       = Inr (ln (1 / 2))"
proof -
  have c: "layers_conform [(Mat 2 [[0, 0]], [0, 0])] 1 (2 * 1)"
      "layers_conform [(Mat 1 [[0]], [0])] 1 1" "has_shape (Mat 1 [[1]]) 1 1"
    by (simp_all add: has_shape_def nrows_def wf_matrix_def)
  have r: "\<forall>i<1. \<forall>j<1. 0 \<le> entry (Mat 1 [[1]]) i j \<and> entry (Mat 1 [[1]]) i j \<le> 1"
    by (simp add: entry_def)
  show ?thesis
    using vae_lower_bound_is_mean
      [of "[(Mat 2 [[0, 0]], [0, 0])]" "Mat 1 [[1]]" "Mat 2 [[0, 0]]" "\<lambda>i j. 0" "Mat 1 [[0]]"
          "[(Mat 1 [[0]], [0])]" "Mat 1 [[0]]" "[ln (1 / 2)]" "[0]" 1 1 1]
      example_rec_value example_sample_value example_gen_value example_log_prob_value
      example_KL_value c r
    by simp
qed

section \<open>Binarization in the objective\<close>

lemma binarize_shape_entries:
  assumes sel: "has_shape sel N n"
  shows "has_shape (binarize sel unif) N n
       \<and> (\<forall>i<N. \<forall>j<n. entry (binarize sel unif) i j = (if unif i j < entry sel i j then 1 else 0))"
proof -
  have len: "length (rows sel) = N" by (rule has_shape_length [OF sel])
  have nc: "ncols sel = n" and nr: "nrows sel = N" using sel by (simp_all add: has_shape_def)
  have row: "length (rows sel ! i) = n" if "i < N" for i by (rule has_shape_row [OF sel that])
  have "has_shape (binarize sel unif) N n"
    by (rule has_shapeI) (simp_all add: binarize_def Let_def mat_map_def draw_def len nc nr row)
  moreover have "entry (binarize sel unif) i j = (if unif i j < entry sel i j then 1 else 0)"
    if "i < N" "j < n" for i j
    using that by (simp add: binarize_def Let_def mat_map_def draw_def entry_def len nc nr row)
  ultimately show ?thesis by blast
qed

text \<open>
  Claim C8.  Every evaluation of the training objective binarizes the selected training
  rows: with one uniform draw per pixel, a pixel of the batch becomes 1 when its
  intensity exceeds its draw and 0 otherwise, so every pixel of the binarized batch is
  exactly 0 or 1; the lower bound is evaluated on that batch.
\<close>

theorem objective_binarizes_batch:
  "(unflat_params flattened_combined_params = Inr (gen_params, rec_params)
      \<and> take_rows train_images batch = Inr sel
    \<longrightarrow> objective unflat_params train_images batch unif eps flattened_combined_params
          = vae_lower_bound gen_params rec_params (binarize sel unif) eps)
   \<and> (has_shape sel N n
    \<longrightarrow> has_shape (binarize sel unif) N n
        \<and> (\<forall>i<N. \<forall>j<n. entry (binarize sel unif) i j = (if unif i j < entry sel i j then 1 else 0))
        \<and> (\<forall>i<N. \<forall>j<n. entry (binarize sel unif) i j = 0 \<or> entry (binarize sel unif) i j = 1))"
proof (intro conjI impI)
  assume "unflat_params flattened_combined_params = Inr (gen_params, rec_params)
      \<and> take_rows train_images batch = Inr sel"
  then show "objective unflat_params train_images batch unif eps flattened_combined_params
          = vae_lower_bound gen_params rec_params (binarize sel unif) eps"
    by (simp add: objective_def)
next
  assume "has_shape sel N n"
  then show "has_shape (binarize sel unif) N n"
    using binarize_shape_entries by blast
next
  assume "has_shape sel N n"
  then show "\<forall>i<N. \<forall>j<n. entry (binarize sel unif) i j = (if unif i j < entry sel i j then 1 else 0)"
    using binarize_shape_entries by blast
next
  assume "has_shape sel N n"
  then have "\<forall>i<N. \<forall>j<n. entry (binarize sel unif) i j = (if unif i j < entry sel i j then 1 else 0)"
    using binarize_shape_entries by blast
  then show "\<forall>i<N. \<forall>j<n. entry (binarize sel unif) i j = 0 \<or> entry (binarize sel unif) i j = 1"
    by simp
qed

lemma example_take_rows:
  "take_rows (Mat 2 [[0.2, 0.9], [0.5, 0.5], [1, 0]]) [0, 2] = Inr (Mat 2 [[0.2, 0.9], [1, 0]])"
  by (simp add: take_rows_def nrows_def)

lemma example_binarize:
  "binarize (Mat 2 [[0.2, 0.9], [1, 0]]) (\<lambda>i j. 0.5) = Mat 2 [[0, 1], [1, 0]]"
  by (simp add: binarize_def mat_map_def draw_def nrows_def upt_rec)

theorem objective_binarizes_batch_witness:
  "take_rows (Mat 2 [[0.2, 0.9], [0.5, 0.5], [1, 0]]) [0, 2] = Inr (Mat 2 [[0.2, 0.9], [1, 0]])
   \<and> has_shape (Mat 2 [[0.2, 0.9], [1, 0]]) 2 2
   \<and> binarize (Mat 2 [[0.2, 0.9], [1, 0]]) (\<lambda>i j. 0.5) = Mat 2 [[0, 1], [1, 0]]
   \<and> has_shape (binarize (Mat 2 [[0.2, 0.9], [1, 0]]) (\<lambda>i j. 0.5)) 2 2
   \<and> objective (\<lambda>v. Inr ([(Mat 2 [[0, 0], [0, 0]], [0, 0])], [(Mat 2 [[0, 0], [0, 0]], [0, 0])]))
        (Mat 2 [[0.2, 0.9], [0.5, 0.5], [1, 0]]) [0, 2] (\<lambda>i j. 0.5) (\<lambda>i j. 0) []
       = vae_lower_bound [(Mat 2 [[0, 0], [0, 0]], [0, 0])] [(Mat 2 [[0, 0], [0, 0]], [0, 0])]
           (Mat 2 [[0, 1], [1, 0]]) (\<lambda>i j. 0)"
proof -
  have s: "has_shape (Mat 2 [[0.2, 0.9], [1, 0]]) 2 2"
    by (simp add: has_shape_def nrows_def wf_matrix_def)
  show ?thesis
    using objective_binarizes_batch
      [of "\<lambda>v. Inr ([(Mat 2 [[0, 0], [0, 0]], [0, 0])], [(Mat 2 [[0, 0], [0, 0]], [0, 0])])"
          "[]" "[(Mat 2 [[0, 0], [0, 0]], [0, 0])]" "[(Mat 2 [[0, 0], [0, 0]], [0, 0])]"
          "Mat 2 [[0.2, 0.9], [0.5, 0.5], [1, 0]]" "[0, 2]" "Mat 2 [[0.2, 0.9], [1, 0]]"
          "\<lambda>i j. 0.5" "\<lambda>i j. 0" 2 2]
      example_take_rows example_binarize s
    by simp
qed

section \<open>Flattening and unflattening\<close>

lemma shape_of_layer_pair: "shape_of_layer (W, b) = (nrows W, ncols W, length b)"
  by (simp add: shape_of_layer_def)

lemma chunks_concat:
  "list_all (\<lambda>r. length r = n) X \<Longrightarrow> chunks (length X) n (concat X @ rest) = X"
  by (induction X arbitrary: rest) simp_all

lemma length_concat_rows:
  "list_all (\<lambda>r. length r = n) X \<Longrightarrow> length (concat X) = length X * n"
  by (induction X) simp_all

lemma reshape_ravel:
  "wf_matrix W \<Longrightarrow> reshape (nrows W) (ncols W) (ravel W) = W"
  using chunks_concat [of "ncols W" "rows W" "[]"]
  by (simp add: reshape_def ravel_def wf_matrix_def nrows_def)

lemma length_ravel: "wf_matrix W \<Longrightarrow> length (ravel W) = nrows W * ncols W"
  by (simp add: ravel_def wf_matrix_def nrows_def length_concat_rows)

lemma length_flatten_net:
  "valid_params ps \<Longrightarrow> length (flatten_net ps) = sum_list (map layer_size (map shape_of_layer ps))"
  by (induction ps rule: flatten_net.induct)
     (simp_all add: valid_params_def layer_size_def shape_of_layer_pair length_ravel)

lemma unflatten_flatten_net:
  "valid_params ps \<Longrightarrow> unflatten_net (map shape_of_layer ps) (flatten_net ps @ rest) = ps"
proof (induction ps arbitrary: rest rule: flatten_net.induct)
  case 1
  show ?case by simp
next
  case (2 W b ps)
  have W: "wf_matrix W" and ps: "valid_params ps" using 2(2) by (simp_all add: valid_params_def)
  have lr: "length (ravel W) = nrows W * ncols W" by (rule length_ravel [OF W])
  have "unflatten_net (map shape_of_layer ps) (flatten_net ps @ rest) = ps"
    by (rule 2(1) [OF ps])
  then show ?case
    using lr reshape_ravel [OF W] by (simp add: shape_of_layer_pair)
qed


text \<open>
  Claim C7.  For a valid pair of generator and recognition parameters, applying the
  unflatten transform to the flattened parameter vector gives back the original nested
  structure: the same nesting, the same shapes and the same values.
\<close>

theorem flatten_unflatten_identity:
  assumes "valid_params gen" and "valid_params rec"
  shows "snd (flatten (gen, rec)) (fst (flatten (gen, rec))) = Inr (gen, rec)"
proof -
  let ?g = "sum_list (map layer_size (map shape_of_layer gen))"
  let ?r = "sum_list (map layer_size (map shape_of_layer rec))"
  have lg: "length (flatten_net gen) = ?g" by (rule length_flatten_net [OF assms(1)])
  have lr: "length (flatten_net rec) = ?r" by (rule length_flatten_net [OF assms(2)])
  have g: "unflatten_net (map shape_of_layer gen) (flatten_net gen) = gen"
    using unflatten_flatten_net [OF assms(1), of "[]"] by simp
  have r: "unflatten_net (map shape_of_layer rec) (flatten_net rec) = rec"
    using unflatten_flatten_net [OF assms(2), of "[]"] by simp
  show ?thesis
    by (simp add: flatten_def Let_def lg lr g r)
qed

theorem flatten_unflatten_identity_witness:
  "valid_params [(Mat 2 [[1, 2], [3, 4]], [5, 6]), (Mat 1 [[7], [8]], [9])]
   \<and> valid_params [(Mat 2 [[10, 11]], [12, 13])]
   \<and> fst (flatten ([(Mat 2 [[1, 2], [3, 4]], [5, 6]), (Mat 1 [[7], [8]], [9])],
                   [(Mat 2 [[10, 11]], [12, 13])]))
       = [1, 2, 3, 4, 5, 6, 7, 8, 9, 10, 11, 12, 13]
   \<and> snd (flatten ([(Mat 2 [[1, 2], [3, 4]], [5, 6]), (Mat 1 [[7], [8]], [9])],
                   [(Mat 2 [[10, 11]], [12, 13])]))
         [1, 2, 3, 4, 5, 6, 7, 8, 9, 10, 11, 12, 13]
       = Inr ([(Mat 2 [[1, 2], [3, 4]], [5, 6]), (Mat 1 [[7], [8]], [9])],
              [(Mat 2 [[10, 11]], [12, 13])])"
proof -
  have v: "valid_params [(Mat 2 [[1, 2], [3, 4]], [5, 6]), (Mat 1 [[7], [8]], [9])]"
      "valid_params [(Mat 2 [[10, 11]], [12, 13])]"
    by (simp_all add: valid_params_def wf_matrix_def)
  have f: "fst (flatten ([(Mat 2 [[1, 2], [3, 4]], [5, 6]), (Mat 1 [[7], [8]], [9])],
                   [(Mat 2 [[10, 11]], [12, 13])]))
       = [1, 2, 3, 4, 5, 6, 7, 8, 9, 10, 11, 12, 13]"
    by (simp add: flatten_def Let_def ravel_def)
  show ?thesis
    using flatten_unflatten_identity [OF v] v f by simp
qed

section \<open>The optimizer\<close>

lemma beta_power_less_one:
  assumes "0 \<le> (b::real)" "b < 1" "1 \<le> (t::nat)"
  shows "0 < 1 - b ^ t"
proof -
  have "b ^ t < 1" using assms by (simp add: power_less_one_iff)
  then show ?thesis by simp
qed

lemma adam_m_update:
  assumes "length m = length g"
  shows "vec_op (+) (map (\<lambda>x. beta1 * x) m) (map (\<lambda>x. (1 - beta1) * x) g) = Inr (adam_m_spec m g)"
proof -
  have "map2 (+) (map (\<lambda>x. beta1 * x) m) (map (\<lambda>x. (1 - beta1) * x) g) = adam_m_spec m g"
    using assms by (intro nth_equalityI) (simp_all add: adam_m_spec_def beta1_def)
  then show ?thesis using assms by (simp add: vec_op_same_length)
qed

lemma adam_v_update:
  assumes "length v = length g"
  shows "vec_op (+) (map (\<lambda>x. beta2 * x) v) (map (\<lambda>x. (1 - beta2) * x) (map (\<lambda>x. x ^ 2) g))
         = Inr (adam_v_spec v g)"
proof -
  have "map2 (+) (map (\<lambda>x. beta2 * x) v) (map (\<lambda>x. (1 - beta2) * x) (map (\<lambda>x. x ^ 2) g))
        = adam_v_spec v g"
    using assms by (intro nth_equalityI) (simp_all add: adam_v_spec_def beta2_def)
  then show ?thesis using assms by (simp add: vec_op_same_length)
qed

lemma adam_v_spec_nonneg:
  assumes "length v = length g" "list_all (\<lambda>x. 0 \<le> x) v"
  shows "list_all (\<lambda>x. 0 \<le> x) (adam_v_spec v g)"
  using assms by (auto simp: adam_v_spec_def list_all_length)

lemma length_adam_m_spec [simp]: "length (adam_m_spec m g) = min (length m) (length g)"
  by (simp add: adam_m_spec_def)

lemma length_adam_v_spec [simp]: "length (adam_v_spec v g) = min (length v) (length g)"
  by (simp add: adam_v_spec_def)

lemma length_adam_theta_spec [simp]: "length (adam_theta_spec theta m v t) = length theta"
  by (simp add: adam_theta_spec_def)

lemma adam_update_value:
  assumes len: "length theta = k" "length m = k" "length v = k" "length g = k"
    and t: "1 \<le> t" and v: "list_all (\<lambda>x. 0 \<le> x) v"
  shows "adam_update g (TrainState theta m v t e)
         = Inr (TrainState (adam_theta_spec theta (adam_m_spec m g) (adam_v_spec v g) t)
                  (adam_m_spec m g) (adam_v_spec v g) t e)"
proof -
  define m' where "m' = adam_m_spec m g"
  define v' where "v' = adam_v_spec v g"
  define d1 where "d1 = 1 - beta1 ^ t"
  define d2 where "d2 = 1 - beta2 ^ t"
  define m_est where "m_est = map (\<lambda>x. x / d1) m'"
  define v_est where "v_est = map (\<lambda>x. x / d2) v'"
  define root where "root = map sqrt v_est"
  define step where "step = map2 (/) (map (\<lambda>x. alpha * x) m_est) (map (\<lambda>x. x + epsilon) root)"
  have lm': "length m' = k" and lv': "length v' = k"
    by (simp_all add: m'_def v'_def len)
  have d1: "0 < d1" unfolding d1_def by (rule beta_power_less_one [OF _ _ t]) (simp_all add: beta1_def)
  have d2: "0 < d2" unfolding d2_def by (rule beta_power_less_one [OF _ _ t]) (simp_all add: beta2_def)
  have s1: "vec_op (+) (map (\<lambda>x. beta1 * x) m) (map (\<lambda>x. (1 - beta1) * x) g) = Inr m'"
    unfolding m'_def by (rule adam_m_update) (simp add: len)
  have s2: "vec_op (+) (map (\<lambda>x. beta2 * x) v) (map (\<lambda>x. (1 - beta2) * x) (map (\<lambda>x. x ^ 2) g))
            = Inr v'"
    unfolding v'_def by (rule adam_v_update) (simp add: len)
  have s3: "div_scalar m' (1 - beta1 ^ t) = Inr m_est"
    using d1 by (simp add: div_scalar_def m_est_def d1_def)
  have s4: "div_scalar v' (1 - beta2 ^ t) = Inr v_est"
    using d2 by (simp add: div_scalar_def v_est_def d2_def)
  have v'nn: "list_all (\<lambda>x. 0 \<le> x) v'"
    unfolding v'_def by (rule adam_v_spec_nonneg) (simp_all add: len v)
  have vnn: "list_all (\<lambda>x. 0 \<le> x) v_est"
    using v'nn d2 by (simp add: v_est_def list_all_length)
  have s5: "np_sqrt v_est = Inr root"
    using vnn by (simp add: np_sqrt_def root_def)
  have dn: "list_all (\<lambda>d. d \<noteq> 0) (map (\<lambda>x. x + epsilon) root)"
    unfolding list_all_length
  proof (intro allI impI)
    fix i assume "i < length (map (\<lambda>x. x + epsilon) root)"
    then have i: "i < length v_est" by (simp add: root_def)
    then have "0 \<le> v_est ! i" using vnn by (simp add: list_all_length)
    then have "0 \<le> sqrt (v_est ! i)" by simp
    then have "0 < sqrt (v_est ! i) + epsilon" by (simp add: epsilon_def add_nonneg_pos)
    then show "map (\<lambda>x. x + epsilon) root ! i \<noteq> 0" using i by (simp add: root_def)
  qed
  have s6: "vec_div (map (\<lambda>x. alpha * x) m_est) (map (\<lambda>x. x + epsilon) root) = Inr step"
    using dn by (simp add: vec_div_def step_def vec_op_same_length m_est_def root_def v_est_def lm' lv')
  have lstep: "length step = k"
    by (simp add: step_def m_est_def root_def v_est_def lm' lv')
  have s7: "add_in_place theta step = Inr (map2 (+) theta step)"
    by (simp add: add_in_place_def vec_op_same_length len lstep)
  have s8: "map2 (+) theta step = adam_theta_spec theta m' v' t"
  proof (rule nth_equalityI)
    show "length (map2 (+) theta step) = length (adam_theta_spec theta m' v' t)"
      by (simp add: len lstep)
    fix i assume "i < length (map2 (+) theta step)"
    then have i: "i < k" by (simp add: len lstep)
    then show "map2 (+) theta step ! i = adam_theta_spec theta m' v' t ! i"
      by (simp add: len lstep step_def m_est_def root_def v_est_def lm' lv' adam_theta_spec_def
          d1_def d2_def alpha_def beta1_def beta2_def epsilon_def)
  qed
  show ?thesis
    unfolding m'_def [symmetric] v'_def [symmetric]
    by (simp only: adam_update.simps s1 s2 s3 s4 s5 s6 s7 s8 and_then_Inr)
qed


lemma adam_inv_initial: "adam_inv (length theta0) (initial_state theta0)"
  by (simp add: adam_inv_def initial_state_def list_all_length)

lemma adam_inv_step:
  assumes "adam_inv k (TrainState theta m v t e)" "length g = k"
  shows "adam_inv k (TrainState (adam_theta_spec theta (adam_m_spec m g) (adam_v_spec v g) t)
                       (adam_m_spec m g) (adam_v_spec v g) (t + 1) e')"
  using assms adam_v_spec_nonneg [of v g] by (simp add: adam_inv_def)

lemma batch_step_value:
  assumes inv: "adam_inv k (TrainState theta m v t e)" and g: "length g = k"
    and grad: "objective_grad t [batch_size * n_batch ..< min N (batch_size * (n_batch + 1))] theta
               = Inr g"
    and val: "objective_fn t [batch_size * n_batch ..< min N (batch_size * (n_batch + 1))]
                (adam_theta_spec theta (adam_m_spec m g) (adam_v_spec v g) t) = Inr val"
  shows "batch_step objective_grad objective_fn N n_batch (TrainState theta m v t e)
         = Inr (TrainState (adam_theta_spec theta (adam_m_spec m g) (adam_v_spec v g) t)
                  (adam_m_spec m g) (adam_v_spec v g) (t + 1) (e + val))"
proof -
  have u: "adam_update g (TrainState theta m v t e)
         = Inr (TrainState (adam_theta_spec theta (adam_m_spec m g) (adam_v_spec v g) t)
                  (adam_m_spec m g) (adam_v_spec v g) t e)"
    using inv g by (intro adam_update_value [of _ k]) (simp_all add: adam_inv_def)
  show ?thesis
    unfolding batch_step_def Let_def
    by (simp only: train_state.sel grad u val and_then_Inr)
qed

lemma batch_step_total:
  assumes wb: "well_behaved objective_grad objective_fn" and inv: "adam_inv k s"
  shows "\<exists>s'. batch_step objective_grad objective_fn N n_batch s = Inr s' \<and> adam_inv k s'
            \<and> counter_t s' = counter_t s + 1"
proof -
  obtain theta m v t e where s: "s = TrainState theta m v t e" by (cases s)
  let ?b = "[batch_size * n_batch ..< min N (batch_size * (n_batch + 1))]"
  obtain g where g: "objective_grad t ?b theta = Inr g" "length g = length theta"
    using wb unfolding well_behaved_def by blast
  have gk: "length g = k" using g(2) inv s by (simp add: adam_inv_def)
  obtain val where val: "objective_fn t ?b
      (adam_theta_spec theta (adam_m_spec m g) (adam_v_spec v g) t) = Inr val"
    using wb unfolding well_behaved_def by blast
  have "batch_step objective_grad objective_fn N n_batch s
         = Inr (TrainState (adam_theta_spec theta (adam_m_spec m g) (adam_v_spec v g) t)
                  (adam_m_spec m g) (adam_v_spec v g) (t + 1) (e + val))"
    unfolding s
    by (rule batch_step_value
        [where objective_grad = objective_grad and objective_fn = objective_fn and g = g
           and val = val, OF inv [unfolded s] gk g(1) val])
  moreover have "adam_inv k (TrainState (adam_theta_spec theta (adam_m_spec m g) (adam_v_spec v g) t)
                  (adam_m_spec m g) (adam_v_spec v g) (t + 1) (e + val))"
    by (rule adam_inv_step [OF inv [unfolded s] gk])
  ultimately show ?thesis by (simp add: s)
qed

lemma batches_loop_total:
  assumes wb: "well_behaved objective_grad objective_fn"
  shows "adam_inv k s \<Longrightarrow>
         \<exists>s'. batches_loop objective_grad objective_fn N bs s = Inr s' \<and> adam_inv k s'
            \<and> counter_t s' = counter_t s + length bs"
proof (induction bs arbitrary: s)
  case Nil
  then show ?case by simp
next
  case (Cons n_batch bs)
  obtain s1 where s1: "batch_step objective_grad objective_fn N n_batch s = Inr s1"
      "adam_inv k s1" "counter_t s1 = counter_t s + 1"
    using batch_step_total [OF wb Cons(2)] by blast
  obtain s' where "batches_loop objective_grad objective_fn N bs s1 = Inr s'" "adam_inv k s'"
      "counter_t s' = counter_t s1 + length bs"
    using Cons(1) [OF s1(2)] by blast
  then show ?case using s1 by simp
qed

lemma epochs_loop_total:
  assumes wb: "well_behaved objective_grad objective_fn"
  shows "adam_inv k s \<Longrightarrow>
         \<exists>s'. epochs_loop objective_grad objective_fn N es s = Inr s' \<and> adam_inv k s'
            \<and> counter_t s' = counter_t s + length es * nat \<lceil>real N / real batch_size\<rceil>"
proof (induction es arbitrary: s)
  case Nil
  then show ?case by simp
next
  case (Cons epoch es)
  let ?s0 = "TrainState (flattened_current_params s) (moment_m s) (moment_v s) (counter_t s) 0"
  have inv0: "adam_inv k ?s0" using Cons(2) by (simp add: adam_inv_def)
  obtain s1 where s1: "batches_loop objective_grad objective_fn N
        [0 ..< nat \<lceil>real N / real batch_size\<rceil>] ?s0 = Inr s1"
      "adam_inv k s1"
      "counter_t s1 = counter_t ?s0 + length [0 ..< nat \<lceil>real N / real batch_size\<rceil>]"
    using batches_loop_total [OF wb inv0] by blast
  obtain s' where "epochs_loop objective_grad objective_fn N es s1 = Inr s'" "adam_inv k s'"
      "counter_t s' = counter_t s1 + length es * nat \<lceil>real N / real batch_size\<rceil>"
    using Cons(1) [OF s1(2)] by blast
  then show ?case using s1 by simp
qed

text \<open>
  Claim C2.  Each mini-batch transition of the training loop, given the gradient \<open>g\<close>
  of the objective at the current flattened parameters, updates the state as
  \<open>m \<leftarrow> \<beta>1 m + (1 - \<beta>1) g\<close>, \<open>v \<leftarrow> \<beta>2 v + (1 - \<beta>2) g\<^sup>2\<close> elementwise, \<open>m_hat = m / (1 - \<beta>1\<^sup>t)\<close>,
  \<open>v_hat = v / (1 - \<beta>2\<^sup>t)\<close>, \<open>\<theta> \<leftarrow> \<theta> + \<alpha> m_hat / (sqrt v_hat + \<epsilon>)\<close>, and then increments
  \<open>t\<close> by one; \<open>m\<close> and \<open>v\<close> start at zero and \<open>t\<close> at 1, and \<open>\<alpha> = 0.001\<close>,
  \<open>\<beta>1 = 0.9\<close>, \<open>\<beta>2 = 0.999\<close>, \<open>\<epsilon> = 1e-8\<close>.  The hypothesis of a transition holds at
  every pass of the loop, so no division or square root in it is undefined.
\<close>

theorem adam_transition:
  "(adam_inv k (TrainState theta m v t e) \<and> length g = k \<longrightarrow>
      adam_update g (TrainState theta m v t e)
        = Inr (TrainState (adam_theta_spec theta (adam_m_spec m g) (adam_v_spec v g) t)
                 (adam_m_spec m g) (adam_v_spec v g) t e)
      \<and> adam_inv k (TrainState (adam_theta_spec theta (adam_m_spec m g) (adam_v_spec v g) t)
                 (adam_m_spec m g) (adam_v_spec v g) (t + 1) (e + val))
      \<and> (objective_grad t [batch_size * n_batch ..< min N (batch_size * (n_batch + 1))] theta
            = Inr g
          \<and> objective_fn t [batch_size * n_batch ..< min N (batch_size * (n_batch + 1))]
              (adam_theta_spec theta (adam_m_spec m g) (adam_v_spec v g) t) = Inr val
         \<longrightarrow> batch_step objective_grad objective_fn N n_batch (TrainState theta m v t e)
             = Inr (TrainState (adam_theta_spec theta (adam_m_spec m g) (adam_v_spec v g) t)
                      (adam_m_spec m g) (adam_v_spec v g) (t + 1) (e + val))))
   \<and> initial_state theta0
       = TrainState theta0 (replicate (length theta0) 0) (replicate (length theta0) 0) 1 0
   \<and> adam_inv (length theta0) (initial_state theta0)
   \<and> (well_behaved objective_grad objective_fn \<longrightarrow>
        (\<exists>s. train objective_grad objective_fn N theta0 = Inr s \<and> adam_inv (length theta0) s
            \<and> counter_t s = 1 + num_epochs * nat \<lceil>real N / real batch_size\<rceil>))
   \<and> alpha = 1 / 1000 \<and> beta1 = 9 / 10 \<and> beta2 = 999 / 1000 \<and> epsilon = 1 / 100000000"
proof (intro conjI impI)
  assume a: "adam_inv k (TrainState theta m v t e) \<and> length g = k"
  then show "adam_update g (TrainState theta m v t e)
        = Inr (TrainState (adam_theta_spec theta (adam_m_spec m g) (adam_v_spec v g) t)
                 (adam_m_spec m g) (adam_v_spec v g) t e)"
    by (intro adam_update_value [of _ k]) (simp_all add: adam_inv_def)
  show "adam_inv k (TrainState (adam_theta_spec theta (adam_m_spec m g) (adam_v_spec v g) t)
                 (adam_m_spec m g) (adam_v_spec v g) (t + 1) (e + val))"
    using a adam_inv_step by blast
  assume "objective_grad t [batch_size * n_batch ..< min N (batch_size * (n_batch + 1))] theta
            = Inr g
          \<and> objective_fn t [batch_size * n_batch ..< min N (batch_size * (n_batch + 1))]
              (adam_theta_spec theta (adam_m_spec m g) (adam_v_spec v g) t) = Inr val"
  then show "batch_step objective_grad objective_fn N n_batch (TrainState theta m v t e)
             = Inr (TrainState (adam_theta_spec theta (adam_m_spec m g) (adam_v_spec v g) t)
                      (adam_m_spec m g) (adam_v_spec v g) (t + 1) (e + val))"
    using a batch_step_value by blast
next
  show "initial_state theta0
       = TrainState theta0 (replicate (length theta0) 0) (replicate (length theta0) 0) 1 0"
    by (simp add: initial_state_def map_replicate_const)
next
  show "adam_inv (length theta0) (initial_state theta0)" by (rule adam_inv_initial)
next
  assume wb: "well_behaved objective_grad objective_fn"
  from epochs_loop_total [OF wb adam_inv_initial, where N = N and es = "[0 ..< num_epochs]"
      and ?theta0.1 = theta0]
  show "\<exists>s. train objective_grad objective_fn N theta0 = Inr s \<and> adam_inv (length theta0) s
            \<and> counter_t s = 1 + num_epochs * nat \<lceil>real N / real batch_size\<rceil>"
    by (simp add: train_def initial_state_def)
next
  show "alpha = 1 / 1000" by (simp add: alpha_def)
  show "beta1 = 9 / 10" by (simp add: beta1_def)
  show "beta2 = 999 / 1000" by (simp add: beta2_def)
  show "epsilon = 1 / 100000000" by (simp add: epsilon_def)
qed


lemma example_spec_values:
  "adam_m_spec [0] [1] = [1 / 10]" "adam_v_spec [0] [1] = [1 / 1000]"
  "adam_theta_spec [0] [1 / 10] [1 / 1000] (Suc 0) = [100000 / 100000001]"
  by (simp_all add: adam_m_spec_def adam_v_spec_def adam_theta_spec_def)

lemma example_well_behaved:
  "well_behaved (\<lambda>t b theta. Inr (map (\<lambda>_. 1) theta)) (\<lambda>t b theta. Inr 0)"
  by (simp add: well_behaved_def)

theorem adam_transition_witness:
  "adam_inv 1 (TrainState [0] [0] [0] 1 0)
   \<and> adam_update [1] (TrainState [0] [0] [0] 1 0)
       = Inr (TrainState [100000 / 100000001] [1 / 10] [1 / 1000] 1 0)
   \<and> batch_step (\<lambda>t b theta. Inr (map (\<lambda>_. 1) theta)) (\<lambda>t b theta. Inr 0) 200 0
         (TrainState [0] [0] [0] 1 0)
       = Inr (TrainState [100000 / 100000001] [1 / 10] [1 / 1000] 2 0)
   \<and> well_behaved (\<lambda>t b theta. Inr (map (\<lambda>_. 1) theta)) (\<lambda>t b theta. Inr 0)
   \<and> (\<exists>s. train (\<lambda>t b theta. Inr (map (\<lambda>_. 1) theta)) (\<lambda>t b theta. Inr 0) 200 [0] = Inr s
          \<and> adam_inv 1 s \<and> counter_t s = 31)"
proof -
  have inv: "adam_inv 1 (TrainState [0] [0] [0] 1 0)"
    by (simp add: adam_inv_def)
  have c: "1 + num_epochs * nat \<lceil>real 200 / real batch_size\<rceil> = 31"
    by (simp add: num_epochs_def batch_size_def)
  show ?thesis
    using adam_transition
      [where k = 1 and theta = "[0]" and m = "[0]" and v = "[0]" and t = 1 and e = 0
         and g = "[1]" and val = 0 and N = 200 and n_batch = 0 and ?theta0.0 = "[0]"
         and objective_grad = "\<lambda>t b theta. Inr (map (\<lambda>_. 1) theta)"
         and objective_fn = "\<lambda>t b theta. Inr 0"]
      inv example_well_behaved c
    by (simp add: example_spec_values del: adam_update.simps)
qed

section \<open>Interpolation\<close>

lemma linspace_unit_25: "linspace 0 1 25 = map (\<lambda>k. real k / 24) [0 ..< 25]"
proof -
  have "[0 ..< 25] = [0 ..< 24] @ [24::nat]"
    using upt_Suc_append [of 0 24] by simp
  then show ?thesis by (simp add: linspace_def)
qed

lemma sequence_map_Inr: "sequence (map (\<lambda>s. Inr (f s)) ss) = Inr (map f ss)"
  by (induction ss) simp_all

lemma neural_net_predict_1d_total:
  assumes "params \<noteq> []" "layers_conform params d n" "length x = d"
  shows "\<exists>y. neural_net_predict_1d params x = Inr y \<and> length y = n"
proof -
  have X: "has_shape (Mat d [x]) 1 d"
    using assms(3) by (simp add: has_shape_def nrows_def wf_matrix_def)
  from neural_net_predict_rows [OF assms(1,2) X] obtain out where
    out: "has_shape out 1 n" "\<forall>i<1. neural_net_predict_1d params (rows (Mat d [x]) ! i) = Inr (rows out ! i)"
    by blast
  have "neural_net_predict_1d params x = Inr (rows out ! 0)" using out(2) by simp
  moreover have "length (rows out ! 0) = n" using has_shape_row [OF out(1), of 0] by simp
  ultimately show ?thesis by blast
qed

lemma mix_value:
  assumes "length a = length b"
  shows "vec_op (+) (map (\<lambda>x. x * s) b) (map (\<lambda>x. (1 - s) * x) a)
         = Inr (map2 (\<lambda>y x. s * y + (1 - s) * x) b a)"
proof -
  have "map2 (+) (map (\<lambda>x. x * s) b) (map (\<lambda>x. (1 - s) * x) a)
        = map2 (\<lambda>y x. s * y + (1 - s) * x) b a"
    using assms by (intro nth_equalityI) (simp_all add: mult.commute)
  then show ?thesis using assms by (simp add: vec_op_same_length)
qed

lemma mix_at_zero: "length a = length b \<Longrightarrow> map2 (\<lambda>y x. x) b a = a"
  by (intro nth_equalityI) simp_all

lemma mix_at_one: "length a = length b \<Longrightarrow> map2 (\<lambda>y x. y) b a = b"
  by (intro nth_equalityI) simp_all

lemma interpolate_value:
  assumes rec: "rec_params \<noteq> []" "layers_conform rec_params d w"
    and gen: "gen_params \<noteq> []" "layers_conform gen_params (w div 2) n"
    and im: "length image1 = d" "length image2 = d"
  shows "\<exists>enc1 enc2 images.
           neural_net_predict_1d rec_params image1 = Inr enc1
         \<and> neural_net_predict_1d rec_params image2 = Inr enc2
         \<and> interpolate gen_params rec_params image1 image2 = Inr images
         \<and> has_shape images 25 n
         \<and> (\<forall>k<25. neural_net_predict_1d gen_params
                      (map2 (\<lambda>y x. (real k / 24) * y + (1 - real k / 24) * x)
                         (take (w div 2) enc2) (take (w div 2) enc1))
                    = Inr (rows images ! k))"
proof -
  obtain enc1 where e1: "neural_net_predict_1d rec_params image1 = Inr enc1" "length enc1 = w"
    using neural_net_predict_1d_total [OF rec im(1)] by blast
  obtain enc2 where e2: "neural_net_predict_1d rec_params image2 = Inr enc2" "length enc2 = w"
    using neural_net_predict_1d_total [OF rec im(2)] by blast
  define L where "L = w div 2"
  define mean1 where "mean1 = take L enc1"
  define mean2 where "mean2 = take L enc2"
  define f where "f = (\<lambda>s. map2 (\<lambda>y x. s * y + (1 - s) * x) mean2 mean1)"
  have l1: "length mean1 = L" and l2: "length mean2 = L"
    by (simp_all add: mean1_def mean2_def e1(2) e2(2) L_def)
  have lf: "length (f s) = L" for s by (simp add: f_def l1 l2)
  have mix: "(\<lambda>s. vec_op (+) (map (\<lambda>x. x * s) mean2) (map (\<lambda>x. (1 - s) * x) mean1))
             = (\<lambda>s. Inr (f s))"
    by (rule ext) (simp add: mix_value l1 l2 f_def)
  have seq: "sequence (map (\<lambda>s. vec_op (+) (map (\<lambda>x. x * s) mean2) (map (\<lambda>x. (1 - s) * x) mean1))
                         (linspace 0 1 25))
             = Inr (map f (linspace 0 1 25))"
    unfolding mix by (rule sequence_map_Inr)
  let ?X = "Mat L (map f (linspace 0 1 25))"
  have len25: "length (linspace 0 1 25) = 25" by (simp add: linspace_unit_25)
  have ne: "linspace 0 1 25 \<noteq> []" using len25 by auto
  have am: "as_matrix (map f (linspace 0 1 25)) = Inr ?X"
  proof -
    obtain s ss where ss: "linspace 0 1 25 = s # ss" using ne by (cases "linspace 0 1 25") auto
    show ?thesis by (simp add: as_matrix_def ss lf list_all_iff)
  qed
  have X: "has_shape ?X 25 L" by (rule has_shapeI) (simp_all add: len25 lf)
  from neural_net_predict_rows [OF gen [folded L_def] X] obtain images where
    images: "neural_net_predict gen_params ?X = Inr images" "has_shape images 25 n"
    and r: "\<forall>i<25. neural_net_predict_1d gen_params (rows ?X ! i) = Inr (rows images ! i)"
    by blast
  have itp: "interpolate gen_params rec_params image1 image2 = Inr images"
    unfolding interpolate_def Let_def
    by (simp only: e1 e2 and_then_Inr mean1_def [symmetric] mean2_def [symmetric]
        L_def [symmetric] seq am images(1))
  have "neural_net_predict_1d gen_params
          (map2 (\<lambda>y x. (real k / 24) * y + (1 - real k / 24) * x) (take (w div 2) enc2)
             (take (w div 2) enc1))
        = Inr (rows images ! k)" if k: "k < 25" for k
  proof -
    have a: "rows ?X ! k = f (real k / 24)"
      using k by (simp add: linspace_unit_25)
    have "neural_net_predict_1d gen_params (rows ?X ! k) = Inr (rows images ! k)"
      using r k by blast
    then have "neural_net_predict_1d gen_params (f (real k / 24)) = Inr (rows images ! k)"
      by (simp only: a)
    then show ?thesis
      unfolding f_def mean1_def mean2_def L_def .
  qed
  then show ?thesis using e1(1) e2(1) itp images(2) by blast
qed


text \<open>
  Claim C5.  The interpolation uses exactly 25 evenly spaced coefficients \<open>s\<close> from 0 to
  1, both endpoints included, interpolates the posterior means (the first half of the
  encoder outputs, not samples) as \<open>s * mean_B + (1 - s) * mean_A\<close>, and decodes each
  of them; the decoded image at \<open>s = 0\<close> is exactly the decode of \<open>mean_A\<close> and the one
  at \<open>s = 1\<close> is exactly the decode of \<open>mean_B\<close>.
\<close>

theorem interpolation_endpoints:
  "linspace 0 1 25 = map (\<lambda>k. real k / 24) [0 ..< 25]
   \<and> length (linspace 0 1 25) = 25 \<and> linspace 0 1 25 ! 0 = 0 \<and> linspace 0 1 25 ! 24 = 1
   \<and> (rec_params \<noteq> [] \<and> layers_conform rec_params d w
       \<and> gen_params \<noteq> [] \<and> layers_conform gen_params (w div 2) n
       \<and> length image1 = d \<and> length image2 = d
      \<longrightarrow> (\<exists>enc1 enc2 images.
             neural_net_predict_1d rec_params image1 = Inr enc1
           \<and> neural_net_predict_1d rec_params image2 = Inr enc2
           \<and> interpolate gen_params rec_params image1 image2 = Inr images
           \<and> has_shape images 25 n
           \<and> (\<forall>k<25. neural_net_predict_1d gen_params
                        (map2 (\<lambda>y x. (real k / 24) * y + (1 - real k / 24) * x)
                           (take (w div 2) enc2) (take (w div 2) enc1))
                      = Inr (rows images ! k))
           \<and> neural_net_predict_1d gen_params (take (w div 2) enc1) = Inr (rows images ! 0)
           \<and> neural_net_predict_1d gen_params (take (w div 2) enc2) = Inr (rows images ! 24)))"
proof (intro conjI impI)
  show "linspace 0 1 25 = map (\<lambda>k. real k / 24) [0 ..< 25]" by (rule linspace_unit_25)
  show "length (linspace 0 1 25) = 25" by (simp add: linspace_unit_25)
  show "linspace 0 1 25 ! 0 = 0" by (simp add: linspace_unit_25)
  show "linspace 0 1 25 ! 24 = 1" by (simp add: linspace_unit_25)
next
  assume a: "rec_params \<noteq> [] \<and> layers_conform rec_params d w
       \<and> gen_params \<noteq> [] \<and> layers_conform gen_params (w div 2) n
       \<and> length image1 = d \<and> length image2 = d"
  then obtain enc1 enc2 images where
    e: "neural_net_predict_1d rec_params image1 = Inr enc1"
       "neural_net_predict_1d rec_params image2 = Inr enc2"
    and i: "interpolate gen_params rec_params image1 image2 = Inr images" "has_shape images 25 n"
    and r: "\<forall>k<25. neural_net_predict_1d gen_params
                      (map2 (\<lambda>y x. (real k / 24) * y + (1 - real k / 24) * x)
                         (take (w div 2) enc2) (take (w div 2) enc1))
                    = Inr (rows images ! k)"
    using interpolate_value [of rec_params d w gen_params n image1 image2] by blast
  have len: "length enc1 = w" "length enc2 = w"
    using neural_net_predict_1d_total [of rec_params d w image1]
      neural_net_predict_1d_total [of rec_params d w image2] a e by auto
  then have eq: "length (take (w div 2) enc1) = length (take (w div 2) enc2)" by simp
  have r0: "neural_net_predict_1d gen_params (take (w div 2) enc1) = Inr (rows images ! 0)"
    using r [rule_format, of 0] mix_at_zero [OF eq] by simp
  have r1: "neural_net_predict_1d gen_params (take (w div 2) enc2) = Inr (rows images ! 24)"
    using r [rule_format, of 24] mix_at_one [OF eq] by simp
  show "\<exists>enc1 enc2 images.
             neural_net_predict_1d rec_params image1 = Inr enc1
           \<and> neural_net_predict_1d rec_params image2 = Inr enc2
           \<and> interpolate gen_params rec_params image1 image2 = Inr images
           \<and> has_shape images 25 n
           \<and> (\<forall>k<25. neural_net_predict_1d gen_params
                        (map2 (\<lambda>y x. (real k / 24) * y + (1 - real k / 24) * x)
                           (take (w div 2) enc2) (take (w div 2) enc1))
                      = Inr (rows images ! k))
           \<and> neural_net_predict_1d gen_params (take (w div 2) enc1) = Inr (rows images ! 0)
           \<and> neural_net_predict_1d gen_params (take (w div 2) enc2) = Inr (rows images ! 24)"
    using e i r r0 r1 by blast
qed

lemma example_encoder_values:
  "neural_net_predict_1d [(Mat 2 [[1, 0]], [0, 0])] [0] = Inr [0, 0]"
  "neural_net_predict_1d [(Mat 2 [[1, 0]], [0, 0])] [24] = Inr [24, 0]"
  by (simp_all add: neural_net_predict_1d_def np_dot_1d_def nrows_def vec_op_def
      vec_mat_def stretch_def upt_rec)

lemma example_decoder_values:
  "neural_net_predict_1d [(Mat 1 [[1]], [0])] [0] = Inr [0]"
  "neural_net_predict_1d [(Mat 1 [[1]], [0])] [24] = Inr [24]"
  by (simp_all add: neural_net_predict_1d_def np_dot_1d_def nrows_def vec_op_def
      vec_mat_def stretch_def)

theorem interpolation_endpoints_witness:
  "layers_conform [(Mat 2 [[1, 0]], [0, 0])] 1 2 \<and> layers_conform [(Mat 1 [[1]], [0])] (2 div 2) 1
   \<and> neural_net_predict_1d [(Mat 2 [[1, 0]], [0, 0])] [0] = Inr [0, 0]
   \<and> neural_net_predict_1d [(Mat 2 [[1, 0]], [0, 0])] [24] = Inr [24, 0]
   \<and> (\<exists>images. interpolate [(Mat 1 [[1]], [0])] [(Mat 2 [[1, 0]], [0, 0])] [0] [24] = Inr images
         \<and> has_shape images 25 1 \<and> rows images ! 0 = [0] \<and> rows images ! 24 = [24])"
proof -
  have c: "layers_conform [(Mat 2 [[1, 0]], [0, 0])] 1 2"
      "layers_conform [(Mat 1 [[1]], [0])] (2 div 2) 1"
    by (simp_all add: has_shape_def nrows_def wf_matrix_def)
  from interpolation_endpoints
    [where rec_params = "[(Mat 2 [[1, 0]], [0, 0])]" and gen_params = "[(Mat 1 [[1]], [0])]"
       and d = 1 and w = 2 and n = 1 and ?image1.0 = "[0]" and ?image2.0 = "[24]"] c
  obtain enc1 enc2 images where
    e: "neural_net_predict_1d [(Mat 2 [[1, 0]], [0, 0])] [0] = Inr enc1"
       "neural_net_predict_1d [(Mat 2 [[1, 0]], [0, 0])] [24] = Inr enc2"
    and i: "interpolate [(Mat 1 [[1]], [0])] [(Mat 2 [[1, 0]], [0, 0])] [0] [24] = Inr images"
       "has_shape images 25 1"
    and r: "neural_net_predict_1d [(Mat 1 [[1]], [0])] (take (2 div 2) enc1) = Inr (rows images ! 0)"
       "neural_net_predict_1d [(Mat 1 [[1]], [0])] (take (2 div 2) enc2) = Inr (rows images ! 24)"
    by auto
  have "enc1 = [0, 0]" "enc2 = [24, 0]" using e example_encoder_values by simp_all
  then have "rows images ! 0 = [0]" "rows images ! 24 = [24]"
    using r example_decoder_values by simp_all
  then show ?thesis using c i example_encoder_values by blast
qed

end
